theory Spec2Isabelle
  imports Main
begin

section \<open>Strings and bytes\<close>

text \<open>
  Module text, statements and paths are Go byte slices and strings; both are byte
  sequences and are modelled as \<^typ>\<open>string\<close>.
\<close>

definition squote :: char where
  "squote = CHR 0x27"

definition dquote :: char where
  "dquote = CHR 0x22"

definition newline :: char where
  "newline = CHR 0x0A"

text \<open>\<^verbatim>\<open>strings.HasPrefix\<close>.\<close>

fun hasPrefix :: "string \<Rightarrow> string \<Rightarrow> bool" where
  "hasPrefix s [] = True"
| "hasPrefix [] (p # ps) = False"
| "hasPrefix (c # cs) (p # ps) = (c = p \<and> hasPrefix cs ps)"

text \<open>
  \<^verbatim>\<open>strings.Replace(s, old, new, 1)\<close> and \<^verbatim>\<open>bytes.Replace(s, old, new, 1)\<close>:
  the first occurrence of \<open>old\<close> is replaced; an empty \<open>old\<close> matches at the
  beginning.
\<close>

fun replace1 :: "string \<Rightarrow> string \<Rightarrow> string \<Rightarrow> string" where
  "replace1 [] old new = (if old = [] then new else [])"
| "replace1 (c # cs) old new =
     (if hasPrefix (c # cs) old then new @ drop (length old) (c # cs)
      else c # replace1 cs old new)"

text \<open>
  \<^verbatim>\<open>bytes.ReplaceAll(s, old, new)\<close> for a non-empty \<open>old\<close>: every
  non-overlapping occurrence, left to right. \<open>skip\<close> counts the bytes of an occurrence
  that are still to be dropped. (With an empty \<open>old\<close> Go inserts \<open>new\<close> around every
  character; the program only passes a matched statement, which is never empty, and the
  model returns the text unchanged there.)
\<close>

fun replaceAllFrom :: "nat \<Rightarrow> string \<Rightarrow> string \<Rightarrow> string \<Rightarrow> string" where
  "replaceAllFrom skip [] old new = []"
| "replaceAllFrom (Suc k) (c # cs) old new = replaceAllFrom k cs old new"
| "replaceAllFrom 0 (c # cs) old new =
     (if hasPrefix (c # cs) old then new @ replaceAllFrom (length old - 1) cs old new
      else c # replaceAllFrom 0 cs old new)"

definition replaceAll :: "string \<Rightarrow> string \<Rightarrow> string \<Rightarrow> string" where
  "replaceAll s old new = (if old = [] then s else replaceAllFrom 0 s old new)"

text \<open>\<^verbatim>\<open>strings.Trim(s, cutset)\<close>: leading and trailing characters of the cutset go.\<close>

definition trim :: "string \<Rightarrow> string \<Rightarrow> string" where
  "trim s cutset =
     rev (dropWhile (\<lambda>c. c \<in> set cutset) (rev (dropWhile (\<lambda>c. c \<in> set cutset) s)))"

text \<open>
  \<^verbatim>\<open>filepath.Ext\<close>: the suffix that starts at the last dot of the last path
  element, empty when that element has no dot. \<open>extRev\<close> scans the reversed path as
  Go's loop scans from the end, collecting what it has passed.
\<close>

fun extRev :: "string \<Rightarrow> string \<Rightarrow> string" where
  "extRev [] acc = []"
| "extRev (c # cs) acc =
     (if c = CHR ''/'' then []
      else if c = CHR ''.'' then c # acc
      else extRev cs (c # acc))"

definition Ext :: "string \<Rightarrow> string" where
  "Ext p = extRev (rev p) []"

section \<open>Lexical path functions\<close>

text \<open>Splitting at every slash: \<open>a/b\<close> is \<open>[a, b]\<close>, \<open>/a\<close> is \<open>[[], a]\<close>.\<close>

fun splitSlash :: "string \<Rightarrow> string list" where
  "splitSlash [] = [[]]"
| "splitSlash (c # cs) =
     (if c = CHR ''/'' then [] # splitSlash cs
      else (case splitSlash cs of
              [] \<Rightarrow> [[c]]
            | x # xs \<Rightarrow> (c # x) # xs))"

fun joinSlash :: "string list \<Rightarrow> string" where
  "joinSlash [] = []"
| "joinSlash [x] = x"
| "joinSlash (x # y # ys) = x @ CHR ''/'' # joinSlash (y # ys)"

text \<open>
  \<^verbatim>\<open>path.Clean\<close> (and \<^verbatim>\<open>filepath.Clean\<close> on Unix). Go's loop reads the path
  element by element and keeps an output buffer; here the buffer is the list of the
  elements written so far, last element first. Empty elements and \<open>.\<close> are dropped,
  \<open>..\<close> removes the last element written unless that is itself \<open>..\<close> or nothing is
  there; then a rooted path drops it and a relative path keeps it.
\<close>

fun cleanStep :: "bool \<Rightarrow> string list \<Rightarrow> string \<Rightarrow> string list" where
  "cleanStep rooted out c =
     (if c = [] \<or> c = ''.'' then out
      else if c = ''..'' then
        (case out of
           [] \<Rightarrow> (if rooted then [] else [''..''])
         | x # xs \<Rightarrow> (if x = ''..'' then ''..'' # x # xs else xs))
      else c # out)"

definition Clean :: "string \<Rightarrow> string" where
  "Clean p =
     (if p = [] then ''.''
      else
        let rooted = (hd p = CHR ''/'');
            out = rev (foldl (cleanStep rooted) [] (splitSlash p))
        in if rooted then CHR ''/'' # joinSlash out
           else if out = [] then ''.'' else joinSlash out)"

text \<open>
  \<^verbatim>\<open>path.Dir\<close> (and \<^verbatim>\<open>filepath.Dir\<close> on Unix): everything up to and including
  the last slash, cleaned.
\<close>

definition dirPart :: "string \<Rightarrow> string" where
  "dirPart p = rev (dropWhile (\<lambda>c. c \<noteq> CHR ''/'') (rev p))"

definition Dir :: "string \<Rightarrow> string" where
  "Dir p = Clean (dirPart p)"

text \<open>\<^verbatim>\<open>filepath.Join(dir, name)\<close>: the non-empty elements, joined and cleaned.\<close>

definition Join :: "string \<Rightarrow> string \<Rightarrow> string" where
  "Join d n = (if d = [] then Clean n else if n = [] then Clean d else Clean (d @ CHR ''/'' # n))"

text \<open>
  \<^verbatim>\<open>filepath.Rel(basepath, targpath)\<close> on Unix: both paths are cleaned, equal
  paths give \<open>.\<close>, a rooted and an unrooted path cannot be related, a base that still
  starts with \<open>..\<close> after the common elements cannot be left, and otherwise the result
  climbs out of what remains of the base and descends what remains of the target.
  \<open>None\<close> is Go's error (its result string is then empty). \<open>relElems\<close> are the
  elements Go's comparison loop steps through: those of the cleaned path, where the root
  \<open>/\<close> alone has the single empty element before its slash.
\<close>

definition relElems :: "string \<Rightarrow> string list" where
  "relElems s =
     (if s = [] then []
      else let xs = splitSlash s
           in if 1 < length xs \<and> last xs = [] then butlast xs else xs)"

fun dropCommon :: "string list \<Rightarrow> string list \<Rightarrow> string list \<times> string list" where
  "dropCommon (b # bs) (t # ts) = (if b = t then dropCommon bs ts else (b # bs, t # ts))"
| "dropCommon bs ts = (bs, ts)"

definition Rel :: "string \<Rightarrow> string \<Rightarrow> string option" where
  "Rel basepath targpath =
     (let base0 = Clean basepath; targ = Clean targpath
      in if targ = base0 then Some ''.''
         else
           let base = (if base0 = ''.'' then [] else base0);
               baseSlashed = (base \<noteq> [] \<and> hd base = CHR ''/'');
               targSlashed = (targ \<noteq> [] \<and> hd targ = CHR ''/'')
           in if baseSlashed \<noteq> targSlashed then None
              else
                let (br, tr) = dropCommon (relElems base) (relElems targ)
                in if br \<noteq> [] \<and> hd br = ''..'' then None
                   else if br \<noteq> [] then
                     Some (joinSlash (replicate (length br) ''..'' @ tr))
                   else Some (joinSlash tr))"

section \<open>Regular expressions\<close>

text \<open>
  Go's \<^verbatim>\<open>regexp\<close> package matches leftmost-first: the match starts as early as
  possible and, among the matches starting there, is the one a backtracking search finds
  first. The four expressions of the program use literals, \<^verbatim>\<open>.\<close> (any character
  but newline), \<^verbatim>\<open>\s\<close>, concatenation, alternation, greedy repetition and, with
  the flag \<^verbatim>\<open>(?m)\<close>, \<^verbatim>\<open>^\<close> for the beginning of a line. Groups only capture,
  and no capture is ever read, so they are not represented.
\<close>

datatype re =
    Eps
  | Chr char
  | Dot
  | Space
  | Bol
  | Seq re re
  | Alt re re
  | Star re

text \<open>
  A position in the text is the text that remains together with a flag saying that the
  position is at the beginning of a line. \<open>ends r pos\<close> lists the positions where a
  match of \<open>r\<close> starting at \<open>pos\<close> can end, in the order in which a backtracking search
  tries them: the left alternative first, as many repetitions as possible first.
\<close>

type_synonym pos = "bool \<times> string"

definition isSpace :: "char \<Rightarrow> bool" where
  "isSpace c = (c = CHR 0x09 \<or> c = CHR 0x0A \<or> c = CHR 0x0C \<or> c = CHR 0x0D \<or> c = CHR 0x20)"

definition eat :: "(char \<Rightarrow> bool) \<Rightarrow> pos \<Rightarrow> pos list" where
  "eat ok p =
     (case snd p of
        [] \<Rightarrow> []
      | c # cs \<Rightarrow> (if ok c then [(c = newline, cs)] else []))"

fun ends :: "re \<Rightarrow> pos \<Rightarrow> pos list" where
  "ends Eps p = [p]"
| "ends (Chr a) p = eat (\<lambda>c. c = a) p"
| "ends Dot p = eat (\<lambda>c. c \<noteq> newline) p"
| "ends Space p = eat isSpace p"
| "ends Bol p = (if fst p then [p] else [])"
| "ends (Seq r1 r2) p = concat (map (ends r2) (ends r1 p))"
| "ends (Alt r1 r2) p = ends r1 p @ ends r2 p"
| "ends (Star r) p =
     concat (map (\<lambda>q. if length (snd q) < length (snd p) then ends (Star r) q else [])
                 (ends r p)) @ [p]"

text \<open>
  \<^verbatim>\<open>FindAll(text, -1)\<close>: the successive non-overlapping matches, each searched
  from the end of the one before. (None of the four expressions matches the empty
  string; an empty match is passed over here.)
\<close>

fun findAllFrom :: "re \<Rightarrow> bool \<Rightarrow> string \<Rightarrow> string list" where
  "findAllFrom r b [] = []"
| "findAllFrom r b (c # cs) =
     (case ends r (b, c # cs) of
        [] \<Rightarrow> findAllFrom r (c = newline) cs
      | q # qs \<Rightarrow>
          (if length (snd q) < length (c # cs)
           then take (length (c # cs) - length (snd q)) (c # cs) # findAllFrom r (fst q) (snd q)
           else findAllFrom r (c = newline) cs))"

definition findAll :: "re \<Rightarrow> string \<Rightarrow> string list" where
  "findAll r s = findAllFrom r True s"

text \<open>\<^verbatim>\<open>Find(text)\<close>: the first match, or nil, which as a string is empty.\<close>

definition find1 :: "re \<Rightarrow> string \<Rightarrow> string" where
  "find1 r s = (case findAll r s of [] \<Rightarrow> [] | m # ms \<Rightarrow> m)"

text \<open>
  \<^verbatim>\<open>ReplaceAll(src, repl)\<close>: every match is replaced by the template \<open>repl\<close>,
  in which \<^verbatim>\<open>$$\<close> is a dollar sign, \<^verbatim>\<open>$name\<close> and \<^verbatim>\<open>${name}\<close> stand for a
  submatch, and a dollar sign followed by neither stands for itself. An expression
  without groups has the submatch \<open>0\<close> only, the whole match; every other name expands
  to nothing. A name is the longest run of letters, digits and underscores; Go decides
  "letter" and "digit" on Unicode code points, the model on ASCII bytes.
\<close>

definition isNameChar :: "char \<Rightarrow> bool" where
  "isNameChar c =
     (let n = (of_char c :: nat)
      in (48 \<le> n \<and> n \<le> 57) \<or> (65 \<le> n \<and> n \<le> 90) \<or> (97 \<le> n \<and> n \<le> 122) \<or> n = 95)"

text \<open>
  \<open>extractName\<close> (Go's \<^verbatim>\<open>extract\<close>) reads the name after a dollar sign and returns it with the number of
  bytes it and its braces take.
\<close>

definition extractName :: "string \<Rightarrow> (string \<times> nat) option" where
  "extractName str =
     (case str of
        [] \<Rightarrow> None
      | c # cs \<Rightarrow>
          (if c = CHR ''{'' then
             (let name = takeWhile isNameChar cs
              in if name = [] then None
                 else if hasPrefix (drop (length name) cs) ''}'' then Some (name, length name + 2)
                 else None)
           else
             (let name = takeWhile isNameChar (c # cs)
              in if name = [] then None else Some (name, length name))))"

fun expandFrom :: "nat \<Rightarrow> string \<Rightarrow> string \<Rightarrow> string" where
  "expandFrom skip [] m = []"
| "expandFrom (Suc k) (c # cs) m = expandFrom k cs m"
| "expandFrom 0 (c # cs) m =
     (if c \<noteq> CHR ''$'' then c # expandFrom 0 cs m
      else if hasPrefix cs ''$'' \<and> cs \<noteq> [] then CHR ''$'' # expandFrom 1 cs m
      else (case extractName cs of
              None \<Rightarrow> CHR ''$'' # expandFrom 0 cs m
            | Some (name, n) \<Rightarrow> (if name = ''0'' then m else []) @ expandFrom n cs m))"

definition expand :: "string \<Rightarrow> string \<Rightarrow> string" where
  "expand template m = expandFrom 0 template m"

fun reReplaceAllFrom :: "re \<Rightarrow> string \<Rightarrow> bool \<Rightarrow> string \<Rightarrow> string" where
  "reReplaceAllFrom r repl b [] = []"
| "reReplaceAllFrom r repl b (c # cs) =
     (case ends r (b, c # cs) of
        [] \<Rightarrow> c # reReplaceAllFrom r repl (c = newline) cs
      | q # qs \<Rightarrow>
          (if length (snd q) < length (c # cs)
           then expand repl (take (length (c # cs) - length (snd q)) (c # cs))
                  @ reReplaceAllFrom r repl (fst q) (snd q)
           else c # reReplaceAllFrom r repl (c = newline) cs))"

definition reReplaceAll :: "re \<Rightarrow> string \<Rightarrow> string \<Rightarrow> string" where
  "reReplaceAll r src repl = reReplaceAllFrom r repl True src"

subsection \<open>The four expressions of the program\<close>

definition lit :: "string \<Rightarrow> re" where
  "lit s = foldr (\<lambda>c r. Seq (Chr c) r) s Eps"

definition quote :: re where
  "quote = Alt (Chr squote) (Chr dquote)"

text \<open>\<^verbatim>\<open>import\((?:'|").*(?:'|")\)\<close>\<close>

definition reDynamicImport :: re where
  "reDynamicImport =
     Seq (lit ''import('') (Seq quote (Seq (Star Dot) (Seq quote (Chr CHR '')''))))"

text \<open>
  The part both static expressions share:
  \<^verbatim>\<open>(\s)(.*from(.*);|((.*\n){0,})\}(\s)from(.*);)\<close>
\<close>

definition fromClause :: re where
  "fromClause = Seq (lit ''from'') (Seq (Star Dot) (Chr CHR '';''))"

definition staticTail :: re where
  "staticTail =
     Seq Space
       (Alt (Seq (Star Dot) fromClause)
            (Seq (Star (Seq (Star Dot) (Chr newline)))
                 (Seq (Chr CHR ''}'') (Seq Space fromClause))))"

text \<open>\<^verbatim>\<open>(?m)^import(\s)(.*from(.*);|((.*\n){0,})\}(\s)from(.*);)\<close>\<close>

definition reStaticImportGoPk :: re where
  "reStaticImportGoPk = Seq Bol (Seq (lit ''import'') staticTail)"

text \<open>\<^verbatim>\<open>export(\s)(.*from(.*);|((.*\n){0,})\}(\s)from(.*);)\<close>\<close>

definition reStaticExportGoPk :: re where
  "reStaticExportGoPk = Seq (lit ''export'') staticTail"

text \<open>\<^verbatim>\<open>(?:'|").*(?:'|")\<close>\<close>

definition rePath :: re where
  "rePath = Seq quote (Seq (Star Dot) quote)"

section \<open>The file system\<close>

text \<open>
  The program reads and writes files and directories through the operating system. The
  model is a tree: a regular file holds its bytes, a directory holds its entries by name,
  in the order \<^verbatim>\<open>os.ReadDir\<close> reports them (sorted by name). There are no symbolic
  links, so \<^verbatim>\<open>Lstat\<close> and \<^verbatim>\<open>Stat\<close> agree.
\<close>

datatype node =
    File string
  | Directory "(string \<times> node) list"

datatype errno = ENOENT | ENOTDIR | EISDIR | ENAMETOOLONG | EACCES

text \<open>The node at an absolute location, given as the list of names from the root.\<close>

fun getNode :: "node \<Rightarrow> string list \<Rightarrow> node option"
  and getEntry :: "(string \<times> node) list \<Rightarrow> string \<Rightarrow> string list \<Rightarrow> node option" where
  "getNode n [] = Some n"
| "getNode (File b) (c # cs) = None"
| "getNode (Directory es) (c # cs) = getEntry es c cs"
| "getEntry [] c cs = None"
| "getEntry (e # es) c cs = (if fst e = c then getNode (snd e) cs else getEntry es c cs)"

text \<open>Byte-wise order of names, the order of a directory listing.\<close>

fun strLess :: "string \<Rightarrow> string \<Rightarrow> bool" where
  "strLess [] [] = False"
| "strLess [] (y # ys) = True"
| "strLess (x # xs) [] = False"
| "strLess (x # xs) (y # ys) =
     (if x = y then strLess xs ys else (of_char x :: nat) < of_char y)"

text \<open>
  Storing a node at a location whose parent directory exists: an entry of that name is
  replaced, a new entry is inserted in name order.
\<close>

fun putNode :: "node \<Rightarrow> string list \<Rightarrow> node \<Rightarrow> node"
  and putEntry :: "(string \<times> node) list \<Rightarrow> string \<Rightarrow> string list \<Rightarrow> node \<Rightarrow> (string \<times> node) list" where
  "putNode n [] new = new"
| "putNode (File b) (c # cs) new = File b"
| "putNode (Directory es) (c # cs) new = Directory (putEntry es c cs new)"
| "putEntry [] c cs new = (if cs = [] then [(c, new)] else [])"
| "putEntry (e # es) c cs new =
     (if fst e = c then (c, putNode (snd e) cs new) # es
      else if cs = [] \<and> c \<notin> fst ` set es \<and> strLess c (fst e) then (c, new) # e # es
      else e # putEntry es c cs new)"

text \<open>
  Path lookup as the kernel does it, one element after the other from the root or from
  the working directory: every element but the last must lead through a directory,
  empty elements and \<open>.\<close> stay, \<open>..\<close> goes to the parent (the root is its own parent).
\<close>

fun walkPath :: "node \<Rightarrow> string list \<Rightarrow> string list \<Rightarrow> errno + string list" where
  "walkPath rt cur [] = Inr cur"
| "walkPath rt cur (c # cs) =
     (case getNode rt cur of
        None \<Rightarrow> Inl ENOENT
      | Some (File b) \<Rightarrow> Inl ENOTDIR
      | Some (Directory es) \<Rightarrow>
          (if c = [] \<or> c = ''.'' then walkPath rt cur cs
           else if c = ''..'' then walkPath rt (butlast cur) cs
           else (case getEntry es c [] of
                   None \<Rightarrow> Inl ENOENT
                 | Some n \<Rightarrow> walkPath rt (cur @ [c]) cs)))"

text \<open>
  The state of the world outside the program: the tree, the working directory, what has
  been printed on standard output, and the paths that \<^verbatim>\<open>ioutil.WriteFile\<close> has
  overwritten, in order.
\<close>

datatype copyError =
    CantStat string errno
  | CouldNotOpen string errno
  | CouldNotCreateSubdirs string errno
  | CouldNotCreate string errno

datatype msg =
    Fullpath string
  | Convertpath string
  | NotResolvable string string
  | CouldNotMakeRelative string string
  | CantWalk string errno
  | CouldNotReadDir string errno
  | CouldNotGetNodeModule copyError

record world =
  root :: node
  cwd :: "string list"
  out :: "msg list"
  overwritten :: "string list"

definition println :: "msg \<Rightarrow> world \<Rightarrow> world" where
  "println m w = w\<lparr>out := out w @ [m]\<rparr>"

text \<open>Linux refuses a path of \<open>PATH_MAX\<close> bytes or more.\<close>

definition PATH_MAX :: nat where
  "PATH_MAX = 4096"

definition startDir :: "world \<Rightarrow> string \<Rightarrow> string list" where
  "startDir w p = (if hasPrefix p ''/'' then [] else cwd w)"

definition resolve :: "world \<Rightarrow> string \<Rightarrow> errno + string list" where
  "resolve w p =
     (if p = [] then Inl ENOENT
      else if PATH_MAX \<le> length p then Inl ENAMETOOLONG
      else walkPath (root w) (startDir w p) (splitSlash p))"

text \<open>\<^verbatim>\<open>os.Stat\<close> and \<^verbatim>\<open>os.Lstat\<close>: the node a path names.\<close>

definition stat :: "world \<Rightarrow> string \<Rightarrow> errno + node" where
  "stat w p =
     (case resolve w p of
        Inl e \<Rightarrow> Inl e
      | Inr loc \<Rightarrow> (case getNode (root w) loc of None \<Rightarrow> Inl ENOENT | Some n \<Rightarrow> Inr n))"

fun isDir :: "node \<Rightarrow> bool" where
  "isDir (Directory es) = True"
| "isDir (File b) = False"

text \<open>\<^verbatim>\<open>os.IsNotExist\<close>\<close>

definition isNotExist :: "errno \<Rightarrow> bool" where
  "isNotExist e = (e = ENOENT)"

text \<open>\<^verbatim>\<open>ioutil.ReadFile\<close>, and \<^verbatim>\<open>os.Open\<close> followed by reading to the end.\<close>

definition readFile :: "world \<Rightarrow> string \<Rightarrow> errno + string" where
  "readFile w p =
     (case stat w p of
        Inl e \<Rightarrow> Inl e
      | Inr (File b) \<Rightarrow> Inr b
      | Inr (Directory es) \<Rightarrow> Inl EISDIR)"

text \<open>\<^verbatim>\<open>os.ReadDir\<close>\<close>

definition readDir :: "world \<Rightarrow> string \<Rightarrow> errno + (string \<times> node) list" where
  "readDir w p =
     (case stat w p of
        Inl e \<Rightarrow> Inl e
      | Inr (File b) \<Rightarrow> Inl ENOTDIR
      | Inr (Directory es) \<Rightarrow> Inr es)"

text \<open>
  \<^verbatim>\<open>ioutil.WriteFile\<close>, and \<^verbatim>\<open>os.Create\<close> followed by \<^verbatim>\<open>io.Copy\<close>: the
  file is created in an existing directory or truncated, and then holds the bytes.
\<close>

definition writeFile :: "world \<Rightarrow> string \<Rightarrow> string \<Rightarrow> errno + world" where
  "writeFile w p bytes =
     (if p = [] then Inl ENOENT
      else if PATH_MAX \<le> length p then Inl ENAMETOOLONG
      else
        let elems = splitSlash p; name = last elems
        in case walkPath (root w) (startDir w p) (butlast elems) of
             Inl e \<Rightarrow> Inl e
           | Inr loc \<Rightarrow>
               (case getNode (root w) loc of
                  None \<Rightarrow> Inl ENOENT
                | Some (File b) \<Rightarrow> Inl ENOTDIR
                | Some (Directory es) \<Rightarrow>
                    (if name = [] \<or> name = ''.'' \<or> name = ''..'' then Inl EISDIR
                     else (case getEntry es name [] of
                             Some (Directory es') \<Rightarrow> Inl EISDIR
                           | _ \<Rightarrow> Inr (w\<lparr>root := putNode (root w) (loc @ [name]) (File bytes)\<rparr>)))))"

text \<open>
  \<^verbatim>\<open>os.MkdirAll\<close>: the path is followed like any other, and every directory
  that is missing along it is created; a regular file in the way is an error.
\<close>

fun mkdirs :: "node \<Rightarrow> string list \<Rightarrow> string list \<Rightarrow> errno + node" where
  "mkdirs rt cur [] = Inr rt"
| "mkdirs rt cur (c # cs) =
     (case getNode rt cur of
        None \<Rightarrow> Inl ENOENT
      | Some (File b) \<Rightarrow> Inl ENOTDIR
      | Some (Directory es) \<Rightarrow>
          (if c = [] \<or> c = ''.'' then mkdirs rt cur cs
           else if c = ''..'' then mkdirs rt (butlast cur) cs
           else (case getEntry es c [] of
                   Some (Directory es') \<Rightarrow> mkdirs rt (cur @ [c]) cs
                 | Some (File b) \<Rightarrow> Inl ENOTDIR
                 | None \<Rightarrow> mkdirs (putNode rt (cur @ [c]) (Directory [])) (cur @ [c]) cs)))"

definition mkdirAll :: "world \<Rightarrow> string \<Rightarrow> errno + world" where
  "mkdirAll w p =
     (if p = [] then Inl ENOENT
      else if PATH_MAX \<le> length p then Inl ENAMETOOLONG
      else (case mkdirs (root w) (startDir w p) (splitSlash p) of
              Inl e \<Rightarrow> Inl e
            | Inr rt \<Rightarrow> Inr (w\<lparr>root := rt\<rparr>)))"

text \<open>
  \<^verbatim>\<open>filepath.WalkDir\<close> below an existing root: the function is called on the root
  and then, if the root is a directory, on everything below it, each directory before
  its entries and the entries in listing order; the first error the function returns
  ends the walk and is the walk's result. The path of an entry is the joined, cleaned
  path of its directory and its name. Go lists a directory at the moment it enters it;
  the model walks the tree as it is when the walk starts, which is the same unless the
  function changes the tree below the root being walked.
\<close>

fun walkNode :: "(string \<Rightarrow> bool \<Rightarrow> 's \<Rightarrow> 's \<times> 'e option) \<Rightarrow> string \<Rightarrow> node \<Rightarrow> 's \<Rightarrow> 's \<times> 'e option"
  and walkEntries :: "(string \<Rightarrow> bool \<Rightarrow> 's \<Rightarrow> 's \<times> 'e option) \<Rightarrow> string \<Rightarrow> (string \<times> node) list \<Rightarrow> 's \<Rightarrow> 's \<times> 'e option" where
  "walkNode fn path (File b) s = fn path False s"
| "walkNode fn path (Directory es) s =
     (case fn path True s of
        (s', Some e) \<Rightarrow> (s', Some e)
      | (s', None) \<Rightarrow> walkEntries fn path es s')"
| "walkEntries fn path [] s = (s, None)"
| "walkEntries fn path (e # es) s =
     (case walkNode fn (Join path (fst e)) (snd e) s of
        (s', Some x) \<Rightarrow> (s', Some x)
      | (s', None) \<Rightarrow> walkEntries fn path es s')"

section \<open>The program\<close>

text \<open>
  A Go function returns or panics; a panic unwinds every caller and ends the process.
\<close>

datatype panic = SliceBoundsOutOfRange | NilDereference

datatype 'a outcome = Returned 'a | Panicked panic

datatype error =
    CouldNotRead string errno
  | CouldNotOverwrite string errno

subsection \<open>\<^verbatim>\<open>fileExists\<close>\<close>

definition fileExists :: "world \<Rightarrow> string \<Rightarrow> bool" where
  "fileExists w p =
     (case stat w p of
        Inl e \<Rightarrow> \<not> isNotExist e
      | Inr n \<Rightarrow> True)"

subsection \<open>\<^verbatim>\<open>findJSFile\<close>\<close>

definition jsName :: "string \<Rightarrow> bool" where
  "jsName name = (Ext name = ''.js'' \<or> Ext name = ''.mjs'')"

text \<open>The loop over the entries: every entry with a script name overwrites the result.\<close>

fun lastJS :: "string \<Rightarrow> (string \<times> node) list \<Rightarrow> string \<Rightarrow> string" where
  "lastJS path [] foundPath = foundPath"
| "lastJS path (f # files) foundPath =
     lastJS path files (if jsName (fst f) then path @ ''/'' @ fst f else foundPath)"

definition findJSFile :: "string \<Rightarrow> world \<Rightarrow> world \<times> string" where
  "findJSFile path w =
     (case readDir w path of
        Inl e \<Rightarrow> (println (CouldNotReadDir path e) w, [])
      | Inr files \<Rightarrow> (w, lastJS path files []))"

subsection \<open>\<^verbatim>\<open>checkNpmPath\<close>\<close>

text \<open>
  The function handed to \<^verbatim>\<open>WalkDir\<close>, on an entry that exists. Its state is the
  world and the variable \<open>foundPath\<close> it assigns; its error is \<^verbatim>\<open>io.EOF\<close>.
\<close>

definition checkWalkFn :: "string \<Rightarrow> bool \<Rightarrow> world \<times> string \<Rightarrow> (world \<times> string) \<times> unit option" where
  "checkWalkFn subPath dir st =
     (if dir then
        (let r = findJSFile subPath (fst st)
         in (r, if snd r \<noteq> [] then Some () else None))
      else (st, None))"

text \<open>
  When \<^verbatim>\<open>Lstat\<close> of the root fails, \<^verbatim>\<open>WalkDir\<close> calls the function once with
  the error and a nil entry. The function prints the error and goes on to call
  \<^verbatim>\<open>IsDir\<close> on the nil entry, which panics. (The message for an error of the walk
  other than \<^verbatim>\<open>io.EOF\<close> is never printed: the function returns no other error.)
\<close>

definition checkNpmPath :: "string \<Rightarrow> string \<Rightarrow> world \<Rightarrow> world \<times> string outcome" where
  "checkNpmPath buildPath pathStr w =
     (let namedPath = buildPath @ ''/spa/web_modules/'' @ pathStr;
          r = findJSFile namedPath w
      in if snd r \<noteq> [] then (fst r, Returned (snd r))
         else (case stat (fst r) namedPath of
                 Inl e \<Rightarrow> (println (CantWalk namedPath e) (fst r), Panicked NilDereference)
               | Inr n \<Rightarrow>
                   (let r' = fst (walkNode checkWalkFn namedPath n (fst r, []))
                    in (fst r', Returned (snd r')))))"

subsection \<open>\<^verbatim>\<open>copyNpmModule\<close>\<close>

text \<open>
  The function handed to \<^verbatim>\<open>WalkDir\<close>, on an entry that exists. The source is
  opened before the destination is created and read after it; the model takes the
  bytes the source holds at its opening, which are the bytes copied whenever source and
  destination are different files.
\<close>

definition copyWalkFn :: "string \<Rightarrow> string \<Rightarrow> bool \<Rightarrow> world \<Rightarrow> world \<times> copyError option" where
  "copyWalkFn gopackDir modulePath dir w =
     (if \<not> dir \<and> Ext modulePath = ''.mjs'' then
        (case readFile w modulePath of
           Inl e \<Rightarrow> (w, Some (CouldNotOpen modulePath e))
         | Inr bytes \<Rightarrow>
             (let outPathFile = gopackDir @ replace1 modulePath ''node_modules'' []
              in case mkdirAll w (Dir outPathFile) of
                   Inl e \<Rightarrow> (w, Some (CouldNotCreateSubdirs (Dir modulePath) e))
                 | Inr w1 \<Rightarrow>
                     (case writeFile w1 outPathFile bytes of
                        Inl e \<Rightarrow> (w1, Some (CouldNotCreate modulePath e))
                      | Inr w2 \<Rightarrow> (w2, None))))
      else (w, None))"

definition copyNpmModule :: "string \<Rightarrow> string \<Rightarrow> world \<Rightarrow> world" where
  "copyNpmModule module gopackDir w =
     (let start = ''node_modules/'' @ module
      in case stat w start of
           Inl e \<Rightarrow> println (CouldNotGetNodeModule (CantStat start e)) w
         | Inr n \<Rightarrow>
             (case walkNode (copyWalkFn gopackDir) start n w of
                (w', Some e) \<Rightarrow> println (CouldNotGetNodeModule e) w'
              | (w', None) \<Rightarrow> w'))"

subsection \<open>\<^verbatim>\<open>runPack\<close>\<close>

text \<open>The loop over the dynamic imports found in the text as it was read.\<close>

definition fixDynamicImports :: "string \<Rightarrow> string" where
  "fixDynamicImports contentBytes =
     foldl (\<lambda>content dynamicImportPath.
              replace1 content dynamicImportPath (replace1 dynamicImportPath ''.svelte'' ''.js''))
           contentBytes (findAll reDynamicImport contentBytes)"

definition allStaticStatements :: "string \<Rightarrow> string list" where
  "allStaticStatements contentBytes =
     findAll reStaticImportGoPk contentBytes @ findAll reStaticExportGoPk contentBytes"

text \<open>The path of a statement: unquoted, with a component extension made a script extension.\<close>

definition statementPath :: "string \<Rightarrow> string" where
  "statementPath staticStatement =
     (let pathStr = trim (find1 rePath staticStatement) [squote, dquote]
      in if Ext pathStr = ''.svelte'' then replace1 pathStr ''.svelte'' ''.js'' else pathStr)"

definition fullPath :: "string \<Rightarrow> string \<Rightarrow> string" where
  "fullPath convertPath pathStr = Clean (Dir convertPath @ ''/'' @ pathStr)"

text \<open>
  The second \<^verbatim>\<open>if\<close> of the loop body. \<^verbatim>\<open>pathStr[:1]\<close> panics on an empty
  string. The result is the new value of \<open>foundPath\<close>.
\<close>

definition resolveNpm :: "string \<Rightarrow> string \<Rightarrow> string \<Rightarrow> string \<Rightarrow> world \<Rightarrow> world \<times> string outcome" where
  "resolveNpm buildPath convertPath pathStr foundPath w =
     (if pathStr = [] then (w, Panicked SliceBoundsOutOfRange)
      else if take 1 pathStr \<noteq> ''.'' \<and> Ext pathStr = [] then
        (case checkNpmPath buildPath pathStr
                (copyNpmModule pathStr (buildPath @ ''/spa/web_modules'') w) of
           (w', Panicked k) \<Rightarrow> (w', Panicked k)
         | (w', Returned found) \<Rightarrow>
             (case Rel (Dir convertPath) found of
                None \<Rightarrow> (println (CouldNotMakeRelative (Dir convertPath) found) w', Returned [])
              | Some rel \<Rightarrow> (w', Returned rel)))
      else (w, Returned foundPath))"

text \<open>The third \<^verbatim>\<open>if\<close> of the loop body: the new text.\<close>

definition replaceStatement :: "string \<Rightarrow> string \<Rightarrow> string \<Rightarrow> string \<Rightarrow> string" where
  "replaceStatement buildPath staticStatement foundPath contentBytes =
     (let replacePath = [squote] @ replace1 foundPath buildPath [] @ [squote]
      in replaceAll contentBytes staticStatement
           (reReplaceAll rePath staticStatement
              (reReplaceAll rePath (find1 rePath staticStatement) replacePath)))"

definition rewrite :: "string \<Rightarrow> string \<Rightarrow> string \<Rightarrow> string \<Rightarrow> string \<Rightarrow> world \<Rightarrow> world \<times> string" where
  "rewrite buildPath convertPath staticStatement foundPath contentBytes w =
     (if foundPath \<noteq> [] then (w, replaceStatement buildPath staticStatement foundPath contentBytes)
      else (println (NotResolvable (statementPath staticStatement) convertPath) w, contentBytes))"

text \<open>
  \<open>runPack\<close> is the function, \<open>runStatements\<close> its loop over the static statements.
  The loop carries what it changes: the list \<open>alreadyConvertedFiles\<close>, the text and
  the world. The error a recursive call returns is dropped, as in the source.
\<close>

function runPack :: "string \<Rightarrow> string \<Rightarrow> string list \<Rightarrow> world \<Rightarrow> world \<times> error option outcome"
  and runStatements :: "string \<Rightarrow> string \<Rightarrow> string list \<Rightarrow> string list \<Rightarrow> string \<Rightarrow> world \<Rightarrow> world \<times> string outcome" where
  "runPack buildPath convertPath alreadyConvertedFiles w =
     (if convertPath \<in> set alreadyConvertedFiles then (w, Returned None)
      else (case readFile w convertPath of
              Inl e \<Rightarrow> (w, Returned (Some (CouldNotRead convertPath e)))
            | Inr contentBytes \<Rightarrow>
                (case runStatements buildPath convertPath alreadyConvertedFiles
                        (allStaticStatements (fixDynamicImports contentBytes))
                        (fixDynamicImports contentBytes) w of
                   (w', Panicked k) \<Rightarrow> (w', Panicked k)
                 | (w', Returned newBytes) \<Rightarrow>
                     (case writeFile w' convertPath newBytes of
                        Inl e \<Rightarrow> (w', Returned (Some (CouldNotOverwrite convertPath e)))
                      | Inr w'' \<Rightarrow>
                          (w''\<lparr>overwritten := overwritten w'' @ [convertPath]\<rparr>, Returned None)))))"
| "runStatements buildPath convertPath alreadyConvertedFiles [] contentBytes w =
     (w, Returned contentBytes)"
| "runStatements buildPath convertPath alreadyConvertedFiles (staticStatement # rest) contentBytes w =
     (let pathStr = statementPath staticStatement;
          fullPathStr = fullPath convertPath pathStr
      in if fileExists w fullPathStr then
           (case runPack buildPath fullPathStr (alreadyConvertedFiles @ [convertPath])
                   (println (Convertpath convertPath) (println (Fullpath fullPathStr) w)) of
              (w1, Panicked k) \<Rightarrow> (w1, Panicked k)
            | (w1, Returned err) \<Rightarrow>
                (case resolveNpm buildPath convertPath pathStr pathStr w1 of
                   (w2, Panicked k) \<Rightarrow> (w2, Panicked k)
                 | (w2, Returned foundPath) \<Rightarrow>
                     (case rewrite buildPath convertPath staticStatement foundPath contentBytes w2 of
                        (w3, newBytes) \<Rightarrow>
                          runStatements buildPath convertPath
                            (alreadyConvertedFiles @ [convertPath]) rest newBytes w3)))
         else
           (case resolveNpm buildPath convertPath pathStr [] w of
              (w2, Panicked k) \<Rightarrow> (w2, Panicked k)
            | (w2, Returned foundPath) \<Rightarrow>
                (case rewrite buildPath convertPath staticStatement foundPath contentBytes w2 of
                   (w3, newBytes) \<Rightarrow>
                     runStatements buildPath convertPath alreadyConvertedFiles rest newBytes w3)))"
  by pat_completeness auto

text \<open>
  \<^verbatim>\<open>Gopack\<close> starts at the entry point of the app. It has no result: the error
  \<open>runPack\<close> returns is dropped. (Its log line and its benchmark are wrappers
  outside this file and are left out.)
\<close>

definition Gopack :: "string \<Rightarrow> world \<Rightarrow> world \<times> unit outcome" where
  "Gopack buildPath w =
     (case runPack buildPath (buildPath @ ''/spa/ejected/main.js'') [] w of
        (w', Panicked k) \<Rightarrow> (w', Panicked k)
      | (w', Returned err) \<Rightarrow> (w', Returned ()))"

subsection \<open>The measure of the recursion\<close>

text \<open>
  The paths the operating system can open, and how many of them are not yet in the
  list \<open>alreadyConvertedFiles\<close>.
\<close>

definition shortPaths :: "string set" where
  "shortPaths = {p. length p < PATH_MAX}"

definition unvisited :: "string list \<Rightarrow> nat" where
  "unvisited acf = card (shortPaths - set acf)"

section \<open>Notions for the statements\<close>

text \<open>
  The entries a walk reaches, in the order it reaches them: a directory before its
  entries, the entries in listing order, each with its path and whether it is a
  directory. \<open>visitAll\<close> calls a function on them in turn and stops at the first error.
\<close>

fun walkList :: "string \<Rightarrow> node \<Rightarrow> (string \<times> bool) list"
  and walkListEntries :: "string \<Rightarrow> (string \<times> node) list \<Rightarrow> (string \<times> bool) list" where
  "walkList path (File b) = [(path, False)]"
| "walkList path (Directory es) = (path, True) # walkListEntries path es"
| "walkListEntries path [] = []"
| "walkListEntries path (e # es) = walkList (Join path (fst e)) (snd e) @ walkListEntries path es"

fun visitAll :: "(string \<Rightarrow> bool \<Rightarrow> 's \<Rightarrow> 's \<times> 'e option) \<Rightarrow> (string \<times> bool) list \<Rightarrow> 's \<Rightarrow> 's \<times> 'e option" where
  "visitAll fn [] s = (s, None)"
| "visitAll fn (x # xs) s =
     (case fn (fst x) (snd x) s of
        (s', Some e) \<Rightarrow> (s', Some e)
      | (s', None) \<Rightarrow> visitAll fn xs s')"

text \<open>
  The first result of a search that is not empty, the last entry with a script name in
  the listing of a directory, and the directories among the entries of a walk.
\<close>

definition firstFound :: "string list \<Rightarrow> string" where
  "firstFound xs = (case filter (\<lambda>x. x \<noteq> []) xs of [] \<Rightarrow> [] | x # rest \<Rightarrow> x)"

definition lastScriptIn :: "world \<Rightarrow> string \<Rightarrow> string" where
  "lastScriptIn w d =
     (case readDir w d of
        Inl e \<Rightarrow> []
      | Inr es \<Rightarrow>
          (case filter jsName (map fst es) of
             [] \<Rightarrow> []
           | n # ns \<Rightarrow> d @ ''/'' @ last (n # ns)))"

definition directoriesOf :: "(string \<times> bool) list \<Rightarrow> string list" where
  "directoriesOf xs = map fst (filter snd xs)"

text \<open>
  What is at a location of the tree: nothing, a regular file or a directory. A leaf is
  a regular file or an empty directory. A tree grows into another when everything that
  exists keeps its kind.
\<close>

definition kindAt :: "node \<Rightarrow> string list \<Rightarrow> bool option" where
  "kindAt rt loc = map_option isDir (getNode rt loc)"

definition leaf :: "node \<Rightarrow> bool" where
  "leaf n = (case n of File b \<Rightarrow> True | Directory es \<Rightarrow> es = [])"

definition grows :: "node \<Rightarrow> node \<Rightarrow> bool" where
  "grows rt rt' = (\<forall>l k. kindAt rt l = Some k \<longrightarrow> kindAt rt' l = Some k)"




section \<open>Worlds for the examples\<close>

text \<open>
  A project directory with a dependency cache \<^verbatim>\<open>node_modules\<close> and a build directory
  \<^verbatim>\<open>public\<close>, whose compiled components lie in \<^verbatim>\<open>public/spa/ejected\<close>.
\<close>

definition site :: "(string \<times> node) list \<Rightarrow> (string \<times> node) list \<Rightarrow> world" where
  "site modules ejected =
     \<lparr>root = Directory
        [(''node_modules'', Directory modules),
         (''public'', Directory [(''spa'', Directory [(''ejected'', Directory ejected)])])],
      cwd = [], out = [], overwritten = []\<rparr>"

definition mainJS :: string where
  "mainJS = ''public/spa/ejected/main.js''"



definition noQuoteWorld :: world where
  "noQuoteWorld = site [] [(''main.js'', File ''import a from b;'')]"


definition unreadableWorld :: world where
  "unreadableWorld = site
     [(''lib'', Directory [(''index.mjs'', File ''export default 1;'')])]
     [(''dir.js'', Directory []),
      (''main.js'', File ''import d from \"./dir.js\";\<newline>import o from \"./ok.js\";\<newline>import x from 'lib';''),
      (''ok.js'', File ''let ok = 1;'')]"

definition noEntryWorld :: world where
  "noEntryWorld = site [] [(''b.js'', File ''let b = 1;'')]"


definition noPackageWorld :: world where
  "noPackageWorld = site [] [(''main.js'', File ''import lp from 'nopkg';'')]"

definition twoDynamicWorld :: world where
  "twoDynamicWorld = site []
     [(''main.js'', File ''f(import('./a.svelte'), import('./b.svelte'));'')]"

definition dirWorld :: world where
  "dirWorld = site []
     [(''lib'', Directory []),
      (''main.js'', File ''import x from './lib';'')]"

text \<open>
  The module of the example in the specification, beside its compiled sibling.
\<close>

definition componentImport :: string where
  "componentImport = ''import B from './b.svelte';''"

definition siblingWorld :: world where
  "siblingWorld =
     \<lparr>root = Directory
        [(''a'', Directory
           [(''b.js'', File ''export default 1;''),
            (''index.js'', File componentImport)])],
      cwd = [], out = [], overwritten = []\<rparr>"

text \<open>
  The same module as the entry point of a site that is built into the directory \<^verbatim>\<open>js\<close>.
\<close>

definition jsBuildWorld :: world where
  "jsBuildWorld =
     \<lparr>root = Directory
        [(''js'', Directory [(''spa'', Directory [(''ejected'', Directory
           [(''b.js'', File ''export default 1;''),
            (''main.js'', File componentImport)])])])],
      cwd = [], out = [], overwritten = []\<rparr>"

text \<open>
  A mirror tree with one package, and a dependency cache with one package.
\<close>

definition mirrorOf :: "(string \<times> node) list \<Rightarrow> world" where
  "mirrorOf entries =
     \<lparr>root = Directory
        [(''public'', Directory [(''spa'', Directory [(''web_modules'',
            Directory [(''pkg'', Directory entries)])])])],
      cwd = [], out = [], overwritten = []\<rparr>"

definition directoryNamedWorld :: world where
  "directoryNamedWorld = mirrorOf [(''old.js'', Directory [])]"

text \<open>
  A package whose only entry with a script name is a directory, in the mirror and in the
  dependency cache of a site that imports it.
\<close>

definition highlightWorld :: world where
  "highlightWorld = mirrorOf
     [(''LICENSE'', File ''MIT''),
      (''highlight.js'', Directory [(''index.mjs'', File ''export default 1;'')])]"

definition vendorWorld :: world where
  "vendorWorld = site
     [(''pkg'', Directory
         [(''LICENSE'', File ''MIT''),
          (''highlight.js'', Directory [(''index.mjs'', File ''export default 1;'')])])]
     [(''main.js'', File ''import v from 'pkg';'')]"



section \<open>Termination\<close>

text \<open>
  The recursion ends because every nested call has one more path in its list than the
  call around it, each such path was read, and only a path shorter than \<open>PATH_MAX\<close>
  can be read: there are finitely many of those.
\<close>

lemma readFile_short: "readFile w p = Inr b \<Longrightarrow> length p < PATH_MAX"
  by (auto simp: readFile_def stat_def resolve_def split: if_splits sum.splits)

lemma finite_shortPaths: "finite shortPaths"
proof -
  have "shortPaths \<subseteq> {p. set p \<subseteq> UNIV \<and> length p \<le> PATH_MAX}"
    by (auto simp: shortPaths_def)
  moreover have "finite {p :: string. set p \<subseteq> UNIV \<and> length p \<le> PATH_MAX}"
    by (rule finite_lists_length_le) simp
  ultimately show ?thesis by (rule finite_subset)
qed

lemma unvisited_less:
  "p \<notin> set acf \<Longrightarrow> length p < PATH_MAX \<Longrightarrow> unvisited (acf @ [p]) < unvisited acf"
proof -
  assume a: "p \<notin> set acf" "length p < PATH_MAX"
  have "shortPaths - set (acf @ [p]) \<subset> shortPaths - set acf"
    using a by (auto simp: shortPaths_def)
  moreover have "finite (shortPaths - set acf)"
    by (simp add: finite_shortPaths)
  ultimately show ?thesis
    unfolding unvisited_def by (rule psubset_card_mono[rotated])
qed

lemma unvisited_again: "unvisited (acf @ [p, p]) = unvisited (acf @ [p])"
  by (simp add: unvisited_def)

lemma runPack_total: "All runPack_runStatements_dom"
  apply (relation "inv_image (less_than <*lex*> less_than) (\<lambda>x. case x of
      Inl (bp, p, acf, w) \<Rightarrow> (2 * unvisited acf, 0)
    | Inr (bp, p, acf, stmts, c, w) \<Rightarrow> (2 * unvisited (acf @ [p]) + 1, length stmts))")
  subgoal by (intro wf_inv_image wf_lex_prod wf_less_than)
  subgoal for buildPath convertPath acf w contentBytes
    using unvisited_less[of convertPath acf] readFile_short[of w convertPath contentBytes]
    by simp
  subgoal by simp
  subgoal by (simp add: unvisited_again)
  subgoal by simp
  done

termination runPack
  by (rule runPack_total)

declare runPack.simps [simp del]

section \<open>The helpers and the world\<close>

lemma root_println [simp]: "root (println m w) = root w"
  and cwd_println [simp]: "cwd (println m w) = cwd w"
  and overwritten_println [simp]: "overwritten (println m w) = overwritten w"
  and out_println [simp]: "out (println m w) = out w @ [m]"
  by (simp_all add: println_def)

lemma two_lines: "println (Convertpath cp) (println (Fullpath p) w) = w\<lparr>out := out w @ [Fullpath p, Convertpath cp]\<rparr>"
  by (simp add: println_def)

lemma stat_same_tree:
  assumes "root w' = root w" and "cwd w' = cwd w"
  shows "stat w' p = stat w p"
  unfolding stat_def resolve_def startDir_def assms by (rule refl)

lemma stat_println [simp]: "stat (println m w) p = stat w p"
  by (rule stat_same_tree) simp_all

lemma readFile_println [simp]: "readFile (println m w) p = readFile w p"
  by (simp add: readFile_def)

lemma fileExists_println [simp]: "fileExists (println m w) p = fileExists w p"
  by (simp add: fileExists_def)

lemma readFile_directory: "stat w p = Inr (Directory es) \<Longrightarrow> readFile w p = Inl EISDIR"
  by (simp add: readFile_def)

lemma runStatements_found:
  assumes "fileExists w (fullPath cp (statementPath st))"
    and "runPack bp (fullPath cp (statementPath st)) (acf @ [cp])
           (println (Convertpath cp) (println (Fullpath (fullPath cp (statementPath st))) w)) = (w1, Returned err)"
  shows "runStatements bp cp acf (st # rest) content w =
     (case resolveNpm bp cp (statementPath st) (statementPath st) w1 of
        (w2, Panicked k) \<Rightarrow> (w2, Panicked k)
      | (w2, Returned foundPath) \<Rightarrow>
          (case rewrite bp cp st foundPath content w2 of
             (w3, newBytes) \<Rightarrow> runStatements bp cp (acf @ [cp]) rest newBytes w3))"
  using assms by (simp add: Let_def)

subsection \<open>What the helpers leave alone\<close>

lemma mkdirAll_overwritten: "mkdirAll w p = Inr w' \<Longrightarrow> overwritten w' = overwritten w"
  by (auto simp: mkdirAll_def split: if_splits sum.splits)

lemma writeFile_overwritten: "writeFile w p b = Inr w' \<Longrightarrow> overwritten w' = overwritten w"
  by (auto simp: writeFile_def Let_def split: if_splits sum.splits option.splits node.splits)

lemma copyWalkFn_overwritten: "overwritten (fst (copyWalkFn g mp d w)) = overwritten w"
  by (auto simp: copyWalkFn_def Let_def split: sum.splits dest!: mkdirAll_overwritten writeFile_overwritten)

lemma walk_keeps:
  fixes fn :: "string \<Rightarrow> bool \<Rightarrow> 's \<Rightarrow> 's \<times> 'e option" and f :: "'s \<Rightarrow> 'a"
  shows "(\<And>path d s. f (fst (fn path d s)) = f s) \<Longrightarrow> f (fst (walkNode fn path n s)) = f s"
    and "(\<And>path d s. f (fst (fn path d s)) = f s) \<Longrightarrow> f (fst (walkEntries fn path es s)) = f s"
proof (induction fn path n s and fn path es s rule: walkNode_walkEntries.induct)
  case (1 fn path b s)
  then show ?case by simp
next
  case (2 fn path es s)
  obtain s' r where r: "fn path True s = (s', r)" by (cases "fn path True s")
  have s': "f s' = f s" using 2(2)[of path True s] r by simp
  show ?case
  proof (cases r)
    case None
    have "f (fst (walkEntries fn path es s')) = f s'"
      using 2(1)[OF r[symmetric] None] 2(2) by blast
    with r None s' show ?thesis by simp
  next
    case (Some e)
    with r s' show ?thesis by simp
  qed
next
  case (3 fn path s)
  show ?case by simp
next
  case (4 fn path e es s)
  obtain s' r where r: "walkNode fn (Join path (fst e)) (snd e) s = (s', r)"
    by (cases "walkNode fn (Join path (fst e)) (snd e) s")
  have s': "f s' = f s" using 4(1)[OF 4(3)] r by simp
  show ?case
  proof (cases r)
    case None
    have "f (fst (walkEntries fn path es s')) = f s'"
      using 4(2)[OF r[symmetric] None] 4(3) by blast
    with r None s' show ?thesis by simp
  next
    case (Some x)
    with r s' show ?thesis by simp
  qed
qed


lemma copyNpmModule_overwritten [simp]: "overwritten (copyNpmModule m g w) = overwritten w"
proof -
  have "\<And>n. overwritten (fst (walkNode (copyWalkFn g) (''node_modules/'' @ m) n w)) = overwritten w"
    by (rule walk_keeps(1)) (rule copyWalkFn_overwritten)
  then show ?thesis
    by (auto simp: copyNpmModule_def Let_def split: sum.splits prod.splits option.splits)
       (metis fst_conv)+
qed

lemma findJSFile_overwritten [simp]: "overwritten (fst (findJSFile p w)) = overwritten w"
  by (simp add: findJSFile_def split: sum.splits)







lemma runStatements_missing:
  assumes "\<not> fileExists w (fullPath cp (statementPath st))"
  shows "runStatements bp cp acf (st # rest) content w =
     (case resolveNpm bp cp (statementPath st) [] w of
        (w2, Panicked k) \<Rightarrow> (w2, Panicked k)
      | (w2, Returned foundPath) \<Rightarrow>
          (case rewrite bp cp st foundPath content w2 of
             (w3, newBytes) \<Rightarrow> runStatements bp cp acf rest newBytes w3))"
  using assms by (simp add: Let_def)


lemma resolveNpm_not_bare:
  assumes "ps \<noteq> []" and "take 1 ps = ''.'' \<or> Ext ps \<noteq> []"
  shows "resolveNpm bp cp ps found w = (w, Returned found)"
  using assms by (auto simp: resolveNpm_def)

subsection \<open>The tree\<close>

lemma getNode_append:
  "getNode n (a @ b) = (case getNode n a of None \<Rightarrow> None | Some m \<Rightarrow> getNode m b)"
  "getEntry es c (cs @ b) = (case getEntry es c cs of None \<Rightarrow> None | Some m \<Rightarrow> getNode m b)"
  by (induction n a and es c cs rule: getNode_getEntry.induct) auto

lemma getNode_Cons:
  "getNode n (c # cs) = (case getNode n [c] of None \<Rightarrow> None | Some m \<Rightarrow> getNode m cs)"
  using getNode_append(1)[of n "[c]" cs] by simp

lemma getEntry_rest:
  "getEntry es c cs = (case getEntry es c [] of None \<Rightarrow> None | Some m \<Rightarrow> getNode m cs)"
  using getNode_append(2)[of es c "[]" cs] by simp

lemma getNode_leaf: "leaf n \<Longrightarrow> r \<noteq> [] \<Longrightarrow> getNode n r = None"
  by (cases n; cases r) (auto simp: leaf_def)

lemma getNode_below_file: "\<not> isDir n \<Longrightarrow> r \<noteq> [] \<Longrightarrow> getNode n r = None"
  by (cases n; cases r) auto

lemma getEntry_putEntry:
  "getEntry (putEntry es c cs new) c' cs' =
     (if c' \<noteq> c then getEntry es c' cs'
      else (case getEntry es c [] of
              Some v \<Rightarrow> getNode (putNode v cs new) cs'
            | None \<Rightarrow> if cs = [] then getNode new cs' else None))"
proof (induction es)
  case Nil
  then show ?case by simp
next
  case (Cons e es)
  have nomem: "c \<notin> fst ` set es \<Longrightarrow> getEntry es c [] = None"
    by (induction es) auto
  show ?case using Cons nomem by auto
qed

text \<open>Storing a leaf where there is no directory, below an existing directory.\<close>
lemma putNode_leaf:
  assumes "leaf new"
  shows "L \<noteq> [] \<Longrightarrow> kindAt rt (butlast L) = Some True \<Longrightarrow> kindAt rt L \<noteq> Some True \<Longrightarrow>
     getNode (putNode rt L new) L = Some new
     \<and> (l' \<noteq> L \<longrightarrow> kindAt (putNode rt L new) l' = kindAt rt l')
     \<and> (l' \<noteq> L \<longrightarrow> kindAt rt l' \<noteq> Some True \<longrightarrow> getNode (putNode rt L new) l' = getNode rt l')"
proof (induction L arbitrary: rt l')
  case Nil
  then show ?case by simp
next
  case (Cons c cs)
  show ?case
  proof (cases rt)
    case (File b)
    with Cons.prems show ?thesis by (cases cs) (auto simp: kindAt_def)
  next
    case (Directory es)
    show ?thesis
    proof (cases "cs = []")
      case True
      have old: "cs' \<noteq> [] \<Longrightarrow> getEntry es c cs' = None" for cs'
        using Cons.prems(3) True Directory
        by (subst getEntry_rest) (auto simp: kindAt_def getNode_below_file split: option.splits)
      show ?thesis
        using True Directory assms old
        by (cases l') (auto simp: getEntry_putEntry kindAt_def getNode_leaf split: option.splits)
    next
      case False
      from Cons.prems(2) False Directory obtain v where v: "getEntry es c [] = Some v"
        by (cases "getEntry es c []") (auto simp: kindAt_def getEntry_rest[of es c "butlast cs"])
      have kv: "kindAt rt (c # r) = kindAt v r" for r
        using v Directory by (simp add: kindAt_def getEntry_rest[of es c r])
      have gv: "getNode rt (c # r) = getNode v r" for r
        using v Directory by (simp add: getEntry_rest[of es c r])
      have p1: "kindAt v (butlast cs) = Some True"
        using Cons.prems(2) False kv[of "butlast cs"] by simp
      have p2: "kindAt v cs \<noteq> Some True"
        using Cons.prems(3) kv[of cs] by simp
      note ih = Cons.IH[OF False p1 p2]
      show ?thesis
      proof (cases l')
        case Nil
        then show ?thesis using Directory v ih[of cs] by (auto simp: kindAt_def getEntry_putEntry)
      next
        case (Cons c' cs')
        show ?thesis
        proof (cases "c' = c")
          case True
          with Cons show ?thesis
            using Directory v ih[of cs'] kv[of cs'] gv[of cs'] False
            by (auto simp: kindAt_def getEntry_putEntry)
        next
          case False
          with Cons show ?thesis
            using Directory v ih[of cs]
            by (auto simp: kindAt_def getEntry_putEntry)
        qed
      qed
    qed
  qed
qed



lemma kindAt_snoc:
  "kindAt rt (cur @ [c]) =
     (case getNode rt cur of Some (Directory es) \<Rightarrow> map_option isDir (getEntry es c []) | _ \<Rightarrow> None)"
  by (auto simp: kindAt_def getNode_append(1) split: option.splits node.splits)

lemma walkPath_step:
  "walkPath rt cur (c # cs) =
     (if kindAt rt cur = None then Inl ENOENT
      else if kindAt rt cur = Some False then Inl ENOTDIR
      else if c = [] \<or> c = ''.'' then walkPath rt cur cs
      else if c = ''..'' then walkPath rt (butlast cur) cs
      else if kindAt rt (cur @ [c]) = None then Inl ENOENT
      else walkPath rt (cur @ [c]) cs)"
  by (auto simp: kindAt_def getNode_append(1) split: option.splits node.splits)

lemma walkPath_grows:
  "grows rt rt' \<Longrightarrow> walkPath rt cur cs = Inr l \<Longrightarrow> walkPath rt' cur cs = Inr l"
proof (induction cs arbitrary: cur)
  case Nil
  then show ?case by simp
next
  case (Cons c cs)
  from Cons.prems(2) have d: "kindAt rt cur = Some True"
    by (cases "kindAt rt cur") (auto simp: walkPath_step simp del: walkPath.simps split: if_splits)
  then have d': "kindAt rt' cur = Some True"
    using Cons.prems(1) by (simp add: grows_def)
  show ?case
  proof (cases "c = [] \<or> c = ''.'' \<or> c = ''..''")
    case True
    then show ?thesis
      using Cons d d' by (auto simp: walkPath_step simp del: walkPath.simps split: if_splits)
  next
    case False
    with Cons.prems(2) d obtain k where k: "kindAt rt (cur @ [c]) = Some k"
      by (cases "kindAt rt (cur @ [c])") (auto simp: walkPath_step simp del: walkPath.simps)
    then have k': "kindAt rt' (cur @ [c]) = Some k"
      using Cons.prems(1) by (simp add: grows_def)
    show ?thesis
      using False Cons d d' k k' by (auto simp: walkPath_step simp del: walkPath.simps)
  qed
qed

lemma walkPath_append:
  "walkPath rt cur (xs @ ys) =
     (case walkPath rt cur xs of Inl e \<Rightarrow> Inl e | Inr d \<Rightarrow> walkPath rt d ys)"
  by (induction xs arbitrary: cur) (auto split: option.splits node.splits)

lemma splitSlash_nonempty [simp]: "splitSlash p \<noteq> []"
  by (cases p) (auto split: list.splits)

lemma putNode_leaf_grows:
  assumes "leaf new" "L \<noteq> []" "kindAt rt (butlast L) = Some True"
    and "kindAt rt L = None \<or> kindAt rt L = Some (isDir new)" and "\<not> isDir new \<or> kindAt rt L = None"
  shows "grows rt (putNode rt L new)"
proof -
  have n: "kindAt rt L \<noteq> Some True" using assms(4,5) by auto
  show ?thesis
    unfolding grows_def
  proof (intro allI impI)
    fix l k assume k: "kindAt rt l = Some k"
    show "kindAt (putNode rt L new) l = Some k"
    proof (cases "l = L")
      case True
      have "getNode (putNode rt L new) L = Some new"
        using putNode_leaf[OF assms(1,2,3) n, of L] by simp
      then show ?thesis using True k assms(4) by (auto simp: kindAt_def)
    next
      case False
      then show ?thesis using putNode_leaf[OF assms(1,2,3) n, of l] k by simp
    qed
  qed
qed

lemma writeFile_result:
  assumes "writeFile w p c = Inr w'"
  shows "readFile w' p = Inr c" and "grows (root w) (root w')" and "cwd w' = cwd w" and "out w' = out w"
proof -
  let ?elems = "splitSlash p"
  let ?name = "last ?elems"
  from assms have p: "p \<noteq> []" "\<not> PATH_MAX \<le> length p"
    by (auto simp: writeFile_def split: if_splits)
  from assms p obtain loc where loc: "walkPath (root w) (startDir w p) (butlast ?elems) = Inr loc"
    by (cases "walkPath (root w) (startDir w p) (butlast ?elems)") (auto simp: writeFile_def Let_def)
  from assms p loc obtain es where es: "getNode (root w) loc = Some (Directory es)"
    by (auto simp: writeFile_def Let_def split: option.splits node.splits)
  from assms p loc es have name: "?name \<noteq> []" "?name \<noteq> ''.''" "?name \<noteq> ''..''"
    by (auto simp: writeFile_def Let_def split: if_splits)
  from assms p loc es name have nd: "kindAt (root w) (loc @ [?name]) \<noteq> Some True"
    by (auto simp: writeFile_def Let_def kindAt_snoc split: option.splits node.splits)
  from assms p loc es name have w': "w' = w\<lparr>root := putNode (root w) (loc @ [?name]) (File c)\<rparr>"
    by (auto simp: writeFile_def Let_def split: option.splits node.splits)
  let ?rt' = "putNode (root w) (loc @ [?name]) (File c)"
  have lf: "leaf (File c)" by (simp add: leaf_def)
  have par: "kindAt (root w) (butlast (loc @ [?name])) = Some True"
    using es by (simp add: kindAt_def)
  have got: "getNode ?rt' (loc @ [?name]) = Some (File c)"
    using putNode_leaf[OF lf _ par, of "loc @ [?name]"] nd by simp
  have gr: "grows (root w) ?rt'"
    by (rule putNode_leaf_grows[OF lf _ par]) (use nd in \<open>cases "kindAt (root w) (loc @ [?name])"; auto\<close>)+
  show "grows (root w) (root w')" using gr w' by simp
  show "cwd w' = cwd w" "out w' = out w" using w' by simp_all
  have st: "startDir w' p = startDir w p" using w' by (simp add: startDir_def)
  have w1: "walkPath ?rt' (startDir w p) (butlast ?elems) = Inr loc"
    by (rule walkPath_grows[OF gr loc])
  have "kindAt (root w) loc = Some True"
    using es by (simp add: kindAt_def)
  with gr have dk: "kindAt ?rt' loc = Some True"
    by (simp add: grows_def)
  have gk: "kindAt ?rt' (loc @ [?name]) = Some False"
    using got by (simp add: kindAt_def)
  have step: "walkPath ?rt' loc [?name] = Inr (loc @ [?name])"
    using dk gk name by (simp add: walkPath_step del: walkPath.simps(2))
  have "walkPath ?rt' (startDir w p) (butlast ?elems @ [?name]) = Inr (loc @ [?name])"
    by (subst walkPath_append) (simp only: w1 step sum.case)
  then have "walkPath ?rt' (startDir w p) ?elems = Inr (loc @ [?name])"
    by simp
  then show "readFile w' p = Inr c"
    using p got w' st by (simp add: readFile_def stat_def resolve_def)
qed

subsection \<open>Walks as lists\<close>

lemma visitAll_append:
  "visitAll fn (xs @ ys) s =
     (case visitAll fn xs s of (s', Some e) \<Rightarrow> (s', Some e) | (s', None) \<Rightarrow> visitAll fn ys s')"
  by (induction xs arbitrary: s) (auto split: prod.splits option.splits)

lemma walkNode_visitAll:
  "walkNode fn path n s = visitAll fn (walkList path n) s"
  "walkEntries fn path es s = visitAll fn (walkListEntries path es) s"
proof (induction fn path n s and fn path es s rule: walkNode_walkEntries.induct)
  case (1 fn path b s)
  show ?case by (simp split: prod.splits option.splits)
next
  case (2 fn path es s)
  then show ?case by (auto split: prod.splits option.splits)
next
  case (3 fn path s)
  show ?case by simp
next
  case (4 fn path e es s)
  then show ?case by (auto simp: visitAll_append split: prod.splits option.splits)
qed

lemma lastJS_append: "lastJS p (xs @ ys) f = lastJS p ys (lastJS p xs f)"
  by (induction xs arbitrary: f) simp_all

lemma lastJS_none: "\<forall>f \<in> set ys. \<not> jsName (fst f) \<Longrightarrow> lastJS p ys found = found"
  by (induction ys arbitrary: found) simp_all

lemma lastJS_filter:
  "lastJS path files found =
     (case filter jsName (map fst files) of [] \<Rightarrow> found | n # ns \<Rightarrow> path @ ''/'' @ last (n # ns))"
  by (induction files arbitrary: found) (auto split: list.splits)

lemma readDir_same_tree:
  assumes "root w' = root w" and "cwd w' = cwd w"
  shows "readDir w' p = readDir w p"
  unfolding readDir_def stat_same_tree[OF assms] by (rule refl)

lemma findJSFile_result:
  "snd (findJSFile d w) = lastScriptIn w d"
  "root (fst (findJSFile d w)) = root w"
  "cwd (fst (findJSFile d w)) = cwd w"
  by (auto simp: findJSFile_def lastScriptIn_def lastJS_filter split: sum.splits list.splits)

lemma lastScriptIn_same_tree:
  assumes "root w' = root w" and "cwd w' = cwd w"
  shows "lastScriptIn w' d = lastScriptIn w d"
  unfolding lastScriptIn_def readDir_same_tree[OF assms] by (rule refl)

lemma firstFound_Cons:
  "firstFound (x # xs) = (if x \<noteq> [] then x else firstFound xs)"
  by (simp add: firstFound_def)

lemma visitAll_check:
  "root w' = root w \<Longrightarrow> cwd w' = cwd w \<Longrightarrow>
   snd (fst (visitAll checkWalkFn xs (w', []))) = firstFound (map (lastScriptIn w) (directoriesOf xs))"
proof (induction xs arbitrary: w')
  case Nil
  show ?case by (simp add: firstFound_def directoriesOf_def)
next
  case (Cons x xs)
  show ?case
  proof (cases "snd x")
    case False
    then show ?thesis using Cons by (simp add: checkWalkFn_def directoriesOf_def)
  next
    case True
    obtain w'' f where r: "findJSFile (fst x) w' = (w'', f)" by (cases "findJSFile (fst x) w'")
    have f: "f = lastScriptIn w (fst x)"
      using findJSFile_result(1)[of "fst x" w'] r lastScriptIn_same_tree[OF Cons.prems, of "fst x"] by simp
    have w'': "root w'' = root w" "cwd w'' = cwd w"
      using findJSFile_result(2,3)[of "fst x" w'] r Cons.prems by simp_all
    show ?thesis
    proof (cases "f = []")
      case True
      with \<open>snd x\<close> r f Cons.IH[OF w''] show ?thesis
        by (simp add: checkWalkFn_def Let_def directoriesOf_def firstFound_Cons)
    next
      case False
      with \<open>snd x\<close> r f show ?thesis
        by (simp add: checkWalkFn_def Let_def directoriesOf_def firstFound_Cons)
    qed
  qed
qed

lemma copyWalkFn_skips:
  "dir \<or> Ext modulePath \<noteq> ''.mjs'' \<Longrightarrow> copyWalkFn gopackDir modulePath dir w = (w, None)"
  by (auto simp: copyWalkFn_def)


subsection \<open>The example of the specification\<close>

lemma componentImport_facts:
  "fixDynamicImports componentImport = componentImport"
  "allStaticStatements componentImport = [componentImport]"
  "statementPath componentImport = ''./b.js''"
  "fullPath ''a/index.js'' ''./b.js'' = ''a/b.js''"
  by code_simp+

text \<open>
  A template without a dollar sign expands to itself, and cutting a string out of a path
  brings no dollar sign into it. The statement of the example has one quoted path, which
  the expression for paths matches as a whole.
\<close>

lemma expandFrom_plain: "CHR ''$'' \<notin> set t \<Longrightarrow> expandFrom 0 t m = t"
  by (induction t) auto

lemma expand_plain: "CHR ''$'' \<notin> set t \<Longrightarrow> expand t m = t"
  by (simp add: expand_def expandFrom_plain)

lemma set_replace1_cut: "set (replace1 s old []) \<subseteq> set s"
proof (induction s)
  case Nil
  then show ?case by simp
next
  case (Cons c cs)
  have "set (drop (length old) (c # cs)) \<subseteq> set (c # cs)" by (rule set_drop_subset)
  with Cons show ?case by auto
qed

lemma rePath_whole:
  "reReplaceAll rePath (find1 rePath componentImport) t = expand t ([squote] @ ''./b.svelte'' @ [squote])"
  by code_simp simp

lemma rePath_statement:
  "reReplaceAll rePath componentImport t
     = ''import B from '' @ expand t ([squote] @ ''./b.svelte'' @ [squote]) @ '';''"
  by code_simp

lemma replaceAll_whole: "replaceAll componentImport componentImport t = t"
  by code_simp simp


lemma resolveNpm_empty: "resolveNpm bp cp [] found w = (w, Panicked SliceBoundsOutOfRange)"
  by (simp add: resolveNpm_def)

lemma checkNpmPath_missing:
  assumes "stat w (bp @ ''/spa/web_modules/'' @ ps) = Inl e"
  shows "checkNpmPath bp ps w =
     (println (CantWalk (bp @ ''/spa/web_modules/'' @ ps) e)
        (println (CouldNotReadDir (bp @ ''/spa/web_modules/'' @ ps) e) w),
      Panicked NilDereference)"
  using assms by (simp add: checkNpmPath_def findJSFile_def readDir_def Let_def)

text \<open>
  What \<^verbatim>\<open>checkNpmPath\<close> computes when the package directory of the mirror is there: the
  first non-empty answer among those of the package directory and then of the
  directories of the walk below it, where the answer of a directory is the last name
  of its listing with a script extension.
\<close>

lemma checkNpmPath_search_order:
  assumes "stat w (buildPath @ ''/spa/web_modules/'' @ pathStr) = Inr n"
  shows "snd (checkNpmPath buildPath pathStr w) =
     Returned (firstFound (map (lastScriptIn w)
        ((buildPath @ ''/spa/web_modules/'' @ pathStr)
          # directoriesOf (walkList (buildPath @ ''/spa/web_modules/'' @ pathStr) n))))"
proof -
  let ?named = "buildPath @ ''/spa/web_modules/'' @ pathStr"
  obtain w1 f where r: "findJSFile ?named w = (w1, f)" by (cases "findJSFile ?named w")
  have f: "f = lastScriptIn w ?named" using findJSFile_result(1)[of ?named w] r by simp
  have w1: "root w1 = root w" "cwd w1 = cwd w"
    using findJSFile_result(2,3)[of ?named w] r by simp_all
  show ?thesis
  proof (cases "f = []")
    case False
    with r f show ?thesis by (simp add: checkNpmPath_def Let_def firstFound_Cons)
  next
    case True
    have st: "stat w1 ?named = Inr n" using assms stat_same_tree[OF w1, of ?named] by simp
    show ?thesis
      using True r f st visitAll_check[OF w1, of "walkList ?named n"]
      by (simp add: checkNpmPath_def Let_def firstFound_Cons walkNode_visitAll)
  qed
qed

subsection \<open>The mirror\<close>




















section \<open>Claims\<close>

subsection \<open>C1: the traversal and the list of visited files\<close>




subsection \<open>C2: a statement without a quoted path\<close>

text \<open>
  C2: processing a readable module never panics. A statement whose path is empty (the
  expression for paths finds nothing in it, or finds only quotes) makes the loop panic:
  \<^verbatim>\<open>pathStr[:1]\<close> is out of range. So does every module that can be read and has such
  a statement first. In the example the entry module holds the one statement
  \<^verbatim>\<open>import a from b;\<close> and the run ends in that panic with nothing written.
\<close>

theorem empty_path_panics:
  assumes "statementPath st = []"
  shows "(\<exists>k. snd (runStatements bp cp acf (st # rest) content w) = Panicked k)
    \<and> (cp \<notin> set acf \<and> readFile w cp = Inr text
         \<and> allStaticStatements (fixDynamicImports text) = st # rest \<longrightarrow>
        (\<exists>k. snd (runPack bp cp acf w) = Panicked k))"
proof -
  have a: "\<exists>k. snd (runStatements bp cp acf (st # rest) c w) = Panicked k" for c w
  proof (cases "fileExists w (fullPath cp (statementPath st))")
    case True
    let ?w0 = "println (Convertpath cp) (println (Fullpath (fullPath cp (statementPath st))) w)"
    obtain w1 r1 where rp: "runPack bp (fullPath cp (statementPath st)) (acf @ [cp]) ?w0 = (w1, r1)"
      by (cases "runPack bp (fullPath cp (statementPath st)) (acf @ [cp]) ?w0")
    show ?thesis
    proof (cases r1)
      case (Panicked k)
      with True rp show ?thesis by (simp add: Let_def)
    next
      case (Returned err)
      with True rp assms show ?thesis
        by (simp add: runStatements_found[OF True] resolveNpm_empty del: runStatements.simps)
    qed
  next
    case False
    with assms show ?thesis
      by (simp add: runStatements_missing[OF False] resolveNpm_empty del: runStatements.simps)
  qed
  show ?thesis
  proof (intro conjI impI)
    show "\<exists>k. snd (runStatements bp cp acf (st # rest) content w) = Panicked k" by (rule a)
  next
    assume h: "cp \<notin> set acf \<and> readFile w cp = Inr text
         \<and> allStaticStatements (fixDynamicImports text) = st # rest"
    from a[of "fixDynamicImports text" w] obtain k where
      "snd (runStatements bp cp acf (st # rest) (fixDynamicImports text) w) = Panicked k" by blast
    with h show "\<exists>k. snd (runPack bp cp acf w) = Panicked k"
      by (cases "runStatements bp cp acf (st # rest) (fixDynamicImports text) w")
         (simp add: runPack.simps del: runStatements.simps)
  qed
qed

theorem empty_path_panics_witness:
  "statementPath ''import a from b;'' = []
   \<and> allStaticStatements (fixDynamicImports ''import a from b;'') = [''import a from b;'']
   \<and> Gopack ''public'' noQuoteWorld =
     (println (Convertpath mainJS) (println (Fullpath ''public/spa/ejected'') noQuoteWorld),
      Panicked SliceBoundsOutOfRange)"
proof -
  have a: "statementPath ''import a from b;'' = []" by code_simp
  have b: "allStaticStatements (fixDynamicImports ''import a from b;'') = [''import a from b;'']"
    by code_simp
  have c: "Gopack ''public'' noQuoteWorld =
     (println (Convertpath mainJS) (println (Fullpath ''public/spa/ejected'') noQuoteWorld),
      Panicked SliceBoundsOutOfRange)"
    by code_simp
  from empty_path_panics[OF a] a b c show ?thesis by blast
qed

subsection \<open>C3: a bare path whose relative location exists\<close>




subsection \<open>C4: what the mirror builder copies\<close>





subsection \<open>C5: a module that cannot be read\<close>

text \<open>
  C5: a read failure is reported with the path and the cause, ends the processing of
  that module only, and the calling module goes on and is written. When a module cannot
  be read, \<^verbatim>\<open>runPack\<close> returns an error that names the path and the cause and leaves the
  world as it is, the output included; both callers drop that error. So nothing is
  reported: \<^verbatim>\<open>Gopack\<close> on an entry module that cannot be read returns with the world as it
  was, and in a calling module the failure leaves no line but the two that are printed
  before the call. The calling module goes on: when the statement has a relative path,
  the statements after it are processed from that world, with the statement rewritten,
  and the module is written with their result. In the example the entry module imports
  a directory, a module and a package; the directory cannot be read, and the run prints
  four lines about paths found and writes the module and the entry module.
\<close>

theorem read_failure_is_dropped:
  assumes "readFile w p = Inl e" and "p \<notin> set acf"
  shows "runPack bp p acf w = (w, Returned (Some (CouldNotRead p e)))
    \<and> (acf = [] \<and> p = bp @ ''/spa/ejected/main.js'' \<longrightarrow> Gopack bp w = (w, Returned ()))
    \<and> (readFile w cp = Inr body \<and> cp \<notin> set seen \<and> acf = seen @ [cp]
        \<and> allStaticStatements (fixDynamicImports body) = st # rest
        \<and> p = fullPath cp (statementPath st) \<and> fileExists w p
        \<and> take 1 (statementPath st) = ''.''
        \<and> runStatements bp cp acf rest
              (replaceStatement bp st (statementPath st) (fixDynamicImports body))
              (w\<lparr>out := out w @ [Fullpath p, Convertpath cp]\<rparr>) = (w', Returned newBytes)
        \<and> writeFile w' cp newBytes = Inr w''
        \<longrightarrow> runPack bp cp seen w = (w''\<lparr>overwritten := overwritten w'' @ [cp]\<rparr>, Returned None))"
proof (intro conjI impI)
  show own: "runPack bp p acf w = (w, Returned (Some (CouldNotRead p e)))"
    using assms by (simp add: runPack.simps)
  {
    assume "acf = [] \<and> p = bp @ ''/spa/ejected/main.js''"
    with own show "Gopack bp w = (w, Returned ())" by (simp add: Gopack_def)
  }
  assume h: "readFile w cp = Inr body \<and> cp \<notin> set seen \<and> acf = seen @ [cp]
        \<and> allStaticStatements (fixDynamicImports body) = st # rest
        \<and> p = fullPath cp (statementPath st) \<and> fileExists w p
        \<and> take 1 (statementPath st) = ''.''
        \<and> runStatements bp cp acf rest
              (replaceStatement bp st (statementPath st) (fixDynamicImports body))
              (w\<lparr>out := out w @ [Fullpath p, Convertpath cp]\<rparr>) = (w', Returned newBytes)
        \<and> writeFile w' cp newBytes = Inr w''"
  let ?ps = "statementPath st"
  let ?full = "fullPath cp ?ps"
  let ?w0 = "println (Convertpath cp) (println (Fullpath ?full) w)"
  from h have e1: "p = ?full" and e2: "acf = seen @ [cp]" by blast+
  from h have ex: "fileExists w ?full" by blast
  from h have dot: "take 1 ?ps = ''.''" by blast
  then have ne: "?ps \<noteq> []" by auto
  have "readFile ?w0 ?full = Inl e" "?full \<notin> set (seen @ [cp])"
    using assms unfolding e1 e2 by simp_all
  then have rp: "runPack bp ?full (seen @ [cp]) ?w0 = (?w0, Returned (Some (CouldNotRead ?full e)))"
    by (simp add: runPack.simps)
  have rn: "resolveNpm bp cp ?ps ?ps ?w0 = (?w0, Returned ?ps)"
    by (rule resolveNpm_not_bare[OF ne disjI1[OF dot]])
  have rw: "rewrite bp cp st ?ps (fixDynamicImports body) ?w0
      = (?w0, replaceStatement bp st ?ps (fixDynamicImports body))"
    using ne by (simp add: rewrite_def)
  from h have rest: "runStatements bp cp (seen @ [cp]) rest
              (replaceStatement bp st ?ps (fixDynamicImports body)) ?w0 = (w', Returned newBytes)"
    unfolding two_lines e1 e2 by blast
  have "runStatements bp cp seen (st # rest) (fixDynamicImports body) w = (w', Returned newBytes)"
    by (simp add: runStatements_found[OF ex rp] rn rw rest del: runStatements.simps)
  moreover from h have "readFile w cp = Inr body" "cp \<notin> set seen"
    "allStaticStatements (fixDynamicImports body) = st # rest" "writeFile w' cp newBytes = Inr w''"
    by blast+
  ultimately show "runPack bp cp seen w = (w''\<lparr>overwritten := overwritten w'' @ [cp]\<rparr>, Returned None)"
    by (simp add: runPack.simps del: runStatements.simps)
qed

theorem read_failure_is_dropped_witness:
  "readFile unreadableWorld ''public/spa/ejected/dir.js'' = Inl EISDIR
   \<and> runPack ''public'' ''public/spa/ejected/dir.js'' [mainJS] unreadableWorld =
       (unreadableWorld, Returned (Some (CouldNotRead ''public/spa/ejected/dir.js'' EISDIR)))
   \<and> snd (runPack ''public'' mainJS [] unreadableWorld) = Returned None
   \<and> out (fst (Gopack ''public'' unreadableWorld)) =
       [Fullpath ''public/spa/ejected/dir.js'', Convertpath mainJS,
        Fullpath ''public/spa/ejected/ok.js'', Convertpath mainJS]
   \<and> readFile (fst (Gopack ''public'' unreadableWorld)) mainJS =
       Inr ''import d from './dir.js';\<newline>import o from './ok.js';\<newline>import x from '../web_modules/lib/index.mjs';''
   \<and> overwritten (fst (Gopack ''public'' unreadableWorld)) = [''public/spa/ejected/ok.js'', mainJS]
   \<and> readFile noEntryWorld mainJS = Inl ENOENT
   \<and> Gopack ''public'' noEntryWorld = (noEntryWorld, Returned ())"
proof -
  let ?w = unreadableWorld
  let ?p = "''public/spa/ejected/dir.js''"
  let ?body = "''import d from \"./dir.js\";\<newline>import o from \"./ok.js\";\<newline>import x from 'lib';''"
  let ?st = "''import d from \"./dir.js\";''"
  let ?rest = "[''import o from \"./ok.js\";'', ''import x from 'lib';'']"
  let ?new = "''import d from './dir.js';\<newline>import o from './ok.js';\<newline>import x from '../web_modules/lib/index.mjs';''"
  let ?run = "runStatements ''public'' mainJS [mainJS] ?rest
       (replaceStatement ''public'' ?st (statementPath ?st) (fixDynamicImports ?body))
       (?w\<lparr>out := out ?w @ [Fullpath ?p, Convertpath mainJS]\<rparr>)"
  have h: "readFile ?w ?p = Inl EISDIR" by code_simp
  have n: "?p \<notin> set [mainJS]" by (simp add: mainJS_def)
  have t: "readFile ?w mainJS = Inr ?body" by code_simp
  have s: "allStaticStatements (fixDynamicImports ?body) = ?st # ?rest" by code_simp
  have f: "?p = fullPath mainJS (statementPath ?st)" by code_simp
  have x: "fileExists ?w ?p" by code_simp
  have d: "take 1 (statementPath ?st) = ''.''" by code_simp
  have "snd ?run = Returned ?new" by code_simp
  then have r: "?run = (fst ?run, Returned ?new)" by (metis prod.collapse)
  have "case writeFile (fst ?run) mainJS ?new of Inl e \<Rightarrow> False | Inr w'' \<Rightarrow> True" by code_simp
  then obtain w'' where wr: "writeFile (fst ?run) mainJS ?new = Inr w''"
    by (cases "writeFile (fst ?run) mainJS ?new") simp_all
  note inst = read_failure_is_dropped[OF h n, where bp = "''public''" and cp = mainJS
      and body = ?body and seen = "[]" and st = ?st and rest = ?rest and w' = "fst ?run"
      and newBytes = ?new and w'' = w'']
  from inst have a: "runPack ''public'' ?p [mainJS] ?w = (?w, Returned (Some (CouldNotRead ?p EISDIR)))"
    by blast
  from inst t s f x d r wr
  have "runPack ''public'' mainJS [] ?w = (w''\<lparr>overwritten := overwritten w'' @ [mainJS]\<rparr>, Returned None)"
    by simp
  then have b: "snd (runPack ''public'' mainJS [] ?w) = Returned None" by simp
  have c: "out (fst (Gopack ''public'' ?w)) =
       [Fullpath ?p, Convertpath mainJS, Fullpath ''public/spa/ejected/ok.js'', Convertpath mainJS]"
    by code_simp
  have e: "readFile (fst (Gopack ''public'' ?w)) mainJS = Inr ?new" by code_simp
  have g: "overwritten (fst (Gopack ''public'' ?w)) = [''public/spa/ejected/ok.js'', mainJS]"
    by code_simp
  have i: "readFile noEntryWorld mainJS = Inl ENOENT" by code_simp
  have m: "mainJS = ''public'' @ ''/spa/ejected/main.js''" by (simp add: mainJS_def)
  have "mainJS \<notin> set []" by simp
  from read_failure_is_dropped[OF i this, where bp = "''public''"] m
  have j: "Gopack ''public'' noEntryWorld = (noEntryWorld, Returned ())" by blast
  from h a b c e g i j show ?thesis by blast
qed

subsection \<open>C6: a package that is not in the dependency cache\<close>

text \<open>
  C6: an unresolved reference is left as it is and a warning is printed. For a bare
  path whose package directory is missing from the mirror after the copy, the walk of
  that directory hands the function a nil entry and the function panics: two messages
  about the directory are printed, the warning that the path is not resolvable is not,
  and the loop ends there. In the example the package \<open>nopkg\<close> is neither in the cache
  nor in the mirror, and the module is left unwritten.
\<close>

theorem missing_mirror_directory_panics:
  assumes "statementPath st \<noteq> []" and "take 1 (statementPath st) \<noteq> ''.''"
    and "Ext (statementPath st) = []"
    and "stat (copyNpmModule (statementPath st) (bp @ ''/spa/web_modules'') w)
           (bp @ ''/spa/web_modules/'' @ statementPath st) = Inl e"
  shows "resolveNpm bp cp (statementPath st) found w =
      (println (CantWalk (bp @ ''/spa/web_modules/'' @ statementPath st) e)
         (println (CouldNotReadDir (bp @ ''/spa/web_modules/'' @ statementPath st) e)
            (copyNpmModule (statementPath st) (bp @ ''/spa/web_modules'') w)),
       Panicked NilDereference)
    \<and> (\<not> fileExists w (fullPath cp (statementPath st)) \<longrightarrow>
         runStatements bp cp acf (st # rest) content w =
           (println (CantWalk (bp @ ''/spa/web_modules/'' @ statementPath st) e)
              (println (CouldNotReadDir (bp @ ''/spa/web_modules/'' @ statementPath st) e)
                 (copyNpmModule (statementPath st) (bp @ ''/spa/web_modules'') w)),
            Panicked NilDereference))"
proof -
  have r: "resolveNpm bp cp (statementPath st) found w =
      (println (CantWalk (bp @ ''/spa/web_modules/'' @ statementPath st) e)
         (println (CouldNotReadDir (bp @ ''/spa/web_modules/'' @ statementPath st) e)
            (copyNpmModule (statementPath st) (bp @ ''/spa/web_modules'') w)),
       Panicked NilDereference)" for found
    using assms(1-3) checkNpmPath_missing[OF assms(4)] by (simp add: resolveNpm_def)
  show ?thesis
  proof (intro conjI impI)
    show "resolveNpm bp cp (statementPath st) found w =
      (println (CantWalk (bp @ ''/spa/web_modules/'' @ statementPath st) e)
         (println (CouldNotReadDir (bp @ ''/spa/web_modules/'' @ statementPath st) e)
            (copyNpmModule (statementPath st) (bp @ ''/spa/web_modules'') w)),
       Panicked NilDereference)"
      by (rule r)
  next
    assume "\<not> fileExists w (fullPath cp (statementPath st))"
    then show "runStatements bp cp acf (st # rest) content w =
           (println (CantWalk (bp @ ''/spa/web_modules/'' @ statementPath st) e)
              (println (CouldNotReadDir (bp @ ''/spa/web_modules/'' @ statementPath st) e)
                 (copyNpmModule (statementPath st) (bp @ ''/spa/web_modules'') w)),
            Panicked NilDereference)"
      by (simp add: runStatements_missing r del: runStatements.simps)
  qed
qed

theorem missing_mirror_directory_panics_witness:
  "statementPath ''import lp from 'nopkg';'' = ''nopkg''
   \<and> stat (copyNpmModule ''nopkg'' (''public'' @ ''/spa/web_modules'') noPackageWorld)
         (''public'' @ ''/spa/web_modules/'' @ ''nopkg'') = Inl ENOENT
   \<and> snd (Gopack ''public'' noPackageWorld) = Panicked NilDereference
   \<and> out (fst (Gopack ''public'' noPackageWorld)) =
       [CouldNotGetNodeModule (CantStat ''node_modules/nopkg'' ENOENT),
        CouldNotReadDir ''public/spa/web_modules/nopkg'' ENOENT,
        CantWalk ''public/spa/web_modules/nopkg'' ENOENT]
   \<and> overwritten (fst (Gopack ''public'' noPackageWorld)) = []
   \<and> readFile (fst (Gopack ''public'' noPackageWorld)) mainJS = Inr ''import lp from 'nopkg';''"
proof -
  have p: "statementPath ''import lp from 'nopkg';'' = ''nopkg''" by code_simp
  have a: "statementPath ''import lp from 'nopkg';'' \<noteq> []"
    "take 1 (statementPath ''import lp from 'nopkg';'') \<noteq> ''.''"
    "Ext (statementPath ''import lp from 'nopkg';'') = []"
    by code_simp+
  have s: "stat (copyNpmModule ''nopkg'' (''public'' @ ''/spa/web_modules'') noPackageWorld)
         (''public'' @ ''/spa/web_modules/'' @ ''nopkg'') = Inl ENOENT"
    by code_simp
  then have s': "stat (copyNpmModule (statementPath ''import lp from 'nopkg';'')
         (''public'' @ ''/spa/web_modules'') noPackageWorld)
         (''public'' @ ''/spa/web_modules/'' @ statementPath ''import lp from 'nopkg';'') = Inl ENOENT"
    by (simp only: p)
  have g: "snd (Gopack ''public'' noPackageWorld) = Panicked NilDereference"
    "out (fst (Gopack ''public'' noPackageWorld)) =
       [CouldNotGetNodeModule (CantStat ''node_modules/nopkg'' ENOENT),
        CouldNotReadDir ''public/spa/web_modules/nopkg'' ENOENT,
        CantWalk ''public/spa/web_modules/nopkg'' ENOENT]"
    "overwritten (fst (Gopack ''public'' noPackageWorld)) = []"
    "readFile (fst (Gopack ''public'' noPackageWorld)) mainJS = Inr ''import lp from 'nopkg';''"
    by code_simp+
  from missing_mirror_directory_panics[OF a s'] p s g show ?thesis by blast
qed

subsection \<open>C7: where the resolver looks\<close>

text \<open>
  C7: the resolver returns a loadable file of the package directory, and is empty when
  there is none below it. \<^verbatim>\<open>findJSFile\<close> asks for the extension of a name and never
  whether the entry is a file. So a directory whose name ends in \<^verbatim>\<open>.js\<close> or \<^verbatim>\<open>.mjs\<close> is
  taken for a script: when it is the last entry with such a name in the listing of the
  package directory, the result is the path of that directory, and nothing below it is
  looked at. In the examples the package holds the directory \<^verbatim>\<open>highlight.js\<close> with the
  module \<^verbatim>\<open>index.mjs\<close> in it, or nothing but an empty directory \<^verbatim>\<open>old.js\<close>; the import
  of the first package is rewritten to the directory.
\<close>

theorem directory_taken_for_script:
  assumes "readDir w (buildPath @ ''/spa/web_modules/'' @ pathStr) = Inr (before @ (name, Directory es) # after)"
    and "jsName name"
    and "\<forall>f \<in> set after. \<not> jsName (fst f)"
  shows "checkNpmPath buildPath pathStr w =
           (w, Returned (buildPath @ ''/spa/web_modules/'' @ pathStr @ ''/'' @ name))"
proof -
  let ?named = "buildPath @ ''/spa/web_modules/'' @ pathStr"
  have "lastJS ?named (before @ (name, Directory es) # after) [] = ?named @ ''/'' @ name"
    using assms(2,3) by (simp add: lastJS_append lastJS_none)
  with assms(1) have "findJSFile ?named w = (w, ?named @ ''/'' @ name)"
    by (simp add: findJSFile_def)
  then show ?thesis by (simp add: checkNpmPath_def Let_def)
qed

theorem directory_taken_for_script_witness:
  "checkNpmPath ''public'' ''pkg'' highlightWorld =
      (highlightWorld, Returned ''public/spa/web_modules/pkg/highlight.js'')
   \<and> stat highlightWorld ''public/spa/web_modules/pkg/highlight.js''
       = Inr (Directory [(''index.mjs'', File ''export default 1;'')])
   \<and> readFile highlightWorld ''public/spa/web_modules/pkg/highlight.js/index.mjs''
       = Inr ''export default 1;''
   \<and> checkNpmPath ''public'' ''pkg'' directoryNamedWorld =
      (directoryNamedWorld, Returned ''public/spa/web_modules/pkg/old.js'')
   \<and> stat directoryNamedWorld ''public/spa/web_modules/pkg/old.js'' = Inr (Directory [])
   \<and> readFile (fst (Gopack ''public'' vendorWorld)) mainJS
       = Inr ''import v from '../web_modules/pkg/highlight.js';''
   \<and> stat (fst (Gopack ''public'' vendorWorld)) ''public/spa/web_modules/pkg/highlight.js''
       = Inr (Directory [(''index.mjs'', File ''export default 1;'')])"
proof -
  have l1: "readDir highlightWorld (''public'' @ ''/spa/web_modules/'' @ ''pkg'') =
      Inr ([(''LICENSE'', File ''MIT'')]
            @ (''highlight.js'', Directory [(''index.mjs'', File ''export default 1;'')]) # [])"
    by code_simp
  have l2: "readDir directoryNamedWorld (''public'' @ ''/spa/web_modules/'' @ ''pkg'') =
      Inr ([] @ (''old.js'', Directory []) # [])"
    by code_simp
  have j1: "jsName ''highlight.js''" and j2: "jsName ''old.js''" by code_simp+
  have a: "checkNpmPath ''public'' ''pkg'' highlightWorld =
      (highlightWorld, Returned ''public/spa/web_modules/pkg/highlight.js'')"
    using directory_taken_for_script[OF l1 j1] by simp
  have b: "checkNpmPath ''public'' ''pkg'' directoryNamedWorld =
      (directoryNamedWorld, Returned ''public/spa/web_modules/pkg/old.js'')"
    using directory_taken_for_script[OF l2 j2] by simp
  have c: "stat highlightWorld ''public/spa/web_modules/pkg/highlight.js''
       = Inr (Directory [(''index.mjs'', File ''export default 1;'')])"
    by code_simp
  have d: "readFile highlightWorld ''public/spa/web_modules/pkg/highlight.js/index.mjs''
       = Inr ''export default 1;''"
    by code_simp
  have e: "stat directoryNamedWorld ''public/spa/web_modules/pkg/old.js'' = Inr (Directory [])"
    by code_simp
  have f: "readFile (fst (Gopack ''public'' vendorWorld)) mainJS
       = Inr ''import v from '../web_modules/pkg/highlight.js';''"
    by code_simp
  have g: "stat (fst (Gopack ''public'' vendorWorld)) ''public/spa/web_modules/pkg/highlight.js''
       = Inr (Directory [(''index.mjs'', File ''export default 1;'')])"
    by code_simp
  from a b c d e f g show ?thesis by blast
qed


subsection \<open>C8: the example of the specification\<close>

text \<open>
  C8: the module \<^verbatim>\<open>a/index.js\<close> imports \<^verbatim>\<open>./b.svelte\<close> and \<^verbatim>\<open>a/b.js\<close> exists; after
  processing, its import path reads \<^verbatim>\<open>./b.js\<close>. The path is written back with the first
  occurrence of the build path cut out of it, wherever in the path that occurrence is:
  when processing of the module returns without an error, its text holds \<^verbatim>\<open>./b.js\<close>
  less the build path. For the build paths \<^verbatim>\<open>js\<close> and \<^verbatim>\<open>b\<close> the module then imports
  \<^verbatim>\<open>./b.\<close> and \<^verbatim>\<open>./.js\<close>; so does the entry module of a site built into \<^verbatim>\<open>js\<close>.
\<close>

theorem component_import_loses_build_path:
  assumes "readFile w ''a/index.js'' = Inr componentImport"
    and "fileExists w ''a/b.js''"
    and "''a/index.js'' \<notin> set acf"
    and "runPack buildPath ''a/index.js'' acf w = (w', Returned None)"
  shows "readFile w' ''a/index.js''
           = Inr (''import B from '' @ [squote] @ replace1 ''./b.js'' buildPath [] @ [squote] @ '';'')"
proof -
  let ?p = "''a/index.js''"
  let ?t = "[squote] @ replace1 ''./b.js'' buildPath [] @ [squote]"
  let ?new = "''import B from '' @ ?t @ '';''"
  let ?w0 = "println (Convertpath ?p) (println (Fullpath ''a/b.js'') w)"
  obtain w1 r1 where rp: "runPack buildPath ''a/b.js'' (acf @ [?p]) ?w0 = (w1, r1)"
    by (cases "runPack buildPath ''a/b.js'' (acf @ [?p]) ?w0")
  have rn: "resolveNpm buildPath ?p ''./b.js'' ''./b.js'' w1 = (w1, Returned ''./b.js'')"
    by (rule resolveNpm_not_bare) simp_all
  have "set (replace1 ''./b.js'' buildPath []) \<subseteq> set ''./b.js''" by (rule set_replace1_cut)
  then have plain: "CHR ''$'' \<notin> set ?t" by (auto simp: squote_def)
  have "replaceStatement buildPath componentImport ''./b.js'' componentImport = ?new"
    unfolding replaceStatement_def Let_def rePath_whole rePath_statement replaceAll_whole
      expand_plain[OF plain] by simp
  then have rw: "rewrite buildPath ?p componentImport ''./b.js'' componentImport w1 = (w1, ?new)"
    by (simp add: rewrite_def)
  have stm: "runStatements buildPath ?p acf [componentImport] componentImport w =
      (case r1 of Panicked k \<Rightarrow> (w1, Panicked k) | Returned err \<Rightarrow> (w1, Returned ?new))"
    using assms(2) rp rn rw
    by (simp add: componentImport_facts Let_def split: outcome.splits)
  have "runPack buildPath ?p acf w =
      (case r1 of Panicked k \<Rightarrow> (w1, Panicked k)
       | Returned err \<Rightarrow>
          (case writeFile w1 ?p ?new of
             Inl e \<Rightarrow> (w1, Returned (Some (CouldNotOverwrite ?p e)))
           | Inr w2 \<Rightarrow> (w2\<lparr>overwritten := overwritten w2 @ [?p]\<rparr>, Returned None)))"
    using assms(1,3) stm by (simp add: runPack.simps componentImport_facts split: outcome.splits)
  with assms(4) obtain w2 where wr: "writeFile w1 ?p ?new = Inr w2"
    and w': "w' = w2\<lparr>overwritten := overwritten w2 @ [?p]\<rparr>"
    by (auto split: outcome.splits sum.splits)
  have "readFile w2 ?p = Inr ?new"
    by (rule writeFile_result(1)[OF wr])
  moreover have "readFile w' ?p = readFile w2 ?p"
    unfolding w' readFile_def by (rule arg_cong[where f = "case_sum _ _"], rule stat_same_tree) simp_all
  ultimately show ?thesis by simp
qed

theorem component_import_loses_build_path_witness:
  "readFile siblingWorld ''a/index.js'' = Inr ''import B from './b.svelte';''
   \<and> fileExists siblingWorld ''a/b.js''
   \<and> snd (runPack ''js'' ''a/index.js'' [] siblingWorld) = Returned None
   \<and> readFile (fst (runPack ''js'' ''a/index.js'' [] siblingWorld)) ''a/index.js''
       = Inr ''import B from './b.';''
   \<and> readFile (fst (runPack ''b'' ''a/index.js'' [] siblingWorld)) ''a/index.js''
       = Inr ''import B from './.js';''
   \<and> readFile jsBuildWorld ''js/spa/ejected/main.js'' = Inr ''import B from './b.svelte';''
   \<and> readFile (fst (Gopack ''js'' jsBuildWorld)) ''js/spa/ejected/main.js''
       = Inr ''import B from './b.';''"
proof -
  have a: "readFile siblingWorld ''a/index.js'' = Inr componentImport" by code_simp
  have a': "readFile siblingWorld ''a/index.js'' = Inr ''import B from './b.svelte';''" by code_simp
  have b: "fileExists siblingWorld ''a/b.js''" by code_simp
  have d: "''a/index.js'' \<notin> set []" by simp
  have e: "snd (runPack ''js'' ''a/index.js'' [] siblingWorld) = Returned None" by code_simp
  then have e': "runPack ''js'' ''a/index.js'' [] siblingWorld =
      (fst (runPack ''js'' ''a/index.js'' [] siblingWorld), Returned None)"
    by (metis prod.collapse)
  have f: "snd (runPack ''b'' ''a/index.js'' [] siblingWorld) = Returned None" by code_simp
  then have f': "runPack ''b'' ''a/index.js'' [] siblingWorld =
      (fst (runPack ''b'' ''a/index.js'' [] siblingWorld), Returned None)"
    by (metis prod.collapse)
  have c1: "''import B from '' @ [squote] @ replace1 ''./b.js'' ''js'' [] @ [squote] @ '';''
      = ''import B from './b.';''" by code_simp
  have c2: "''import B from '' @ [squote] @ replace1 ''./b.js'' ''b'' [] @ [squote] @ '';''
      = ''import B from './.js';''" by code_simp
  have g: "readFile (fst (runPack ''js'' ''a/index.js'' [] siblingWorld)) ''a/index.js''
       = Inr ''import B from './b.';''"
    using component_import_loses_build_path[OF a b d e'] unfolding c1 .
  have h: "readFile (fst (runPack ''b'' ''a/index.js'' [] siblingWorld)) ''a/index.js''
       = Inr ''import B from './.js';''"
    using component_import_loses_build_path[OF a b d f'] unfolding c2 .
  have i: "readFile jsBuildWorld ''js/spa/ejected/main.js'' = Inr ''import B from './b.svelte';''"
    by code_simp
  have j: "readFile (fst (Gopack ''js'' jsBuildWorld)) ''js/spa/ejected/main.js''
       = Inr ''import B from './b.';''"
    by code_simp
  from a' b e g h i j show ?thesis by blast
qed


subsection \<open>C9: two dynamic imports on one line\<close>

text \<open>
  C9: every dynamic import has its component extension replaced, and a second pass
  changes nothing. The expression for dynamic imports is greedy, so two imports on one
  line are one match, and only the first \<^verbatim>\<open>.svelte\<close> of a match is replaced; the
  second is replaced by a second pass.
\<close>

theorem second_dynamic_import_on_line_kept:
  "readFile (fst (Gopack ''public'' twoDynamicWorld)) mainJS =
     Inr ''f(import('./a.js'), import('./b.svelte'));''
   \<and> findAll reDynamicImport ''f(import('./a.svelte'), import('./b.svelte'));'' =
       [''import('./a.svelte'), import('./b.svelte')'']
   \<and> fixDynamicImports (fixDynamicImports ''f(import('./a.svelte'), import('./b.svelte'));'') =
       ''f(import('./a.js'), import('./b.js'));''"
  by code_simp

subsection \<open>C10: what counts as existing\<close>

text \<open>
  C10: \<open>fileExists\<close> is true unless \<open>stat\<close> reports non-existence, so for directories
  and for every other error. A statement whose location is a directory is therefore
  taken as found: the loop calls \<open>runPack\<close> on the directory, which fails to read it,
  and goes on with the path as the found path.
\<close>

theorem fileExists_unless_not_exist:
  assumes "stat w (fullPath cp (statementPath st)) = Inr (Directory es)"
  shows "fileExists w p = (case stat w p of Inl e \<Rightarrow> e \<noteq> ENOENT | Inr n \<Rightarrow> True)
    \<and> fileExists w (fullPath cp (statementPath st))
    \<and> runPack bp (fullPath cp (statementPath st)) (acf @ [cp])
          (println (Convertpath cp) (println (Fullpath (fullPath cp (statementPath st))) w)) =
        (println (Convertpath cp) (println (Fullpath (fullPath cp (statementPath st))) w),
         Returned (if fullPath cp (statementPath st) \<in> set (acf @ [cp]) then None
                   else Some (CouldNotRead (fullPath cp (statementPath st)) EISDIR)))
    \<and> runStatements bp cp acf (st # rest) content w =
        (case resolveNpm bp cp (statementPath st) (statementPath st)
                (println (Convertpath cp) (println (Fullpath (fullPath cp (statementPath st))) w)) of
           (w2, Panicked k) \<Rightarrow> (w2, Panicked k)
         | (w2, Returned foundPath) \<Rightarrow>
             (case rewrite bp cp st foundPath content w2 of
                (w3, newBytes) \<Rightarrow> runStatements bp cp (acf @ [cp]) rest newBytes w3))"
proof -
  let ?full = "fullPath cp (statementPath st)"
  let ?w0 = "println (Convertpath cp) (println (Fullpath ?full) w)"
  have a: "fileExists w p = (case stat w p of Inl e \<Rightarrow> e \<noteq> ENOENT | Inr n \<Rightarrow> True)"
    by (simp add: fileExists_def isNotExist_def split: sum.splits)
  have b: "fileExists w ?full"
    using assms by (simp add: fileExists_def)
  have "readFile ?w0 ?full = Inl EISDIR"
    using assms by (simp add: readFile_directory)
  then have c: "runPack bp ?full (acf @ [cp]) ?w0 =
      (?w0, Returned (if ?full \<in> set (acf @ [cp]) then None else Some (CouldNotRead ?full EISDIR)))"
    by (simp add: runPack.simps)
  have d: "runStatements bp cp acf (st # rest) content w =
        (case resolveNpm bp cp (statementPath st) (statementPath st) ?w0 of
           (w2, Panicked k) \<Rightarrow> (w2, Panicked k)
         | (w2, Returned foundPath) \<Rightarrow>
             (case rewrite bp cp st foundPath content w2 of
                (w3, newBytes) \<Rightarrow> runStatements bp cp (acf @ [cp]) rest newBytes w3))"
    by (rule runStatements_found[OF b c])
  from a b c d show ?thesis by blast
qed

theorem fileExists_unless_not_exist_witness:
  "stat dirWorld (fullPath mainJS (statementPath ''import x from './lib';'')) = Inr (Directory [])
   \<and> fileExists dirWorld (fullPath mainJS (statementPath ''import x from './lib';''))
   \<and> readFile (fst (Gopack ''public'' dirWorld)) mainJS = Inr ''import x from './lib';''"
proof -
  have h: "stat dirWorld (fullPath mainJS (statementPath ''import x from './lib';'')) = Inr (Directory [])"
    by code_simp
  have r: "readFile (fst (Gopack ''public'' dirWorld)) mainJS = Inr ''import x from './lib';''"
    by code_simp
  from fileExists_unless_not_exist[OF h] h r show ?thesis by blast
qed

end
